theory Spec2Isabelle
  imports Complex_Main "HOL-Library.Sublist"
begin

section \<open>JavaScript values\<close>

text \<open>
  Strings are lists of 8-bit characters, the code units below 256. Case mapping is done on
  the ASCII letters only: the program uses it on the letters of an ISBN and in tests against
  ASCII keywords, where the other letters make no difference. An optional property that the
  service itself fills in or only tests for truthiness (\<^verbatim>\<open>x?: T\<close>) is an
  \<^typ>\<open>'a option\<close>, \<^term>\<open>None\<close> standing for \<^verbatim>\<open>undefined\<close> and for \<^verbatim>\<open>null\<close>; the
  properties of a \<^verbatim>\<open>Partial<Book>\<close>, which come from a request body and are tested
  against \<^verbatim>\<open>undefined\<close>, keep the two apart.
\<close>

text \<open>Truthiness of the value kinds the program tests.\<close>

definition truthyString :: "string \<Rightarrow> bool" where
  "truthyString s = (s \<noteq> [])"

definition truthyNumber :: "rat \<Rightarrow> bool" where
  "truthyNumber n = (n \<noteq> 0)"

definition truthyObject :: "'a \<Rightarrow> bool" where
  "truthyObject x = True"

definition truthy :: "('a \<Rightarrow> bool) \<Rightarrow> 'a option \<Rightarrow> bool" where
  "truthy t v = (case v of None \<Rightarrow> False | Some x \<Rightarrow> t x)"

text \<open>\<^verbatim>\<open>a || b\<close>: the left operand when it is truthy, the right operand otherwise.\<close>

definition jsOr :: "('a \<Rightarrow> bool) \<Rightarrow> 'a option \<Rightarrow> 'a option \<Rightarrow> 'a option" where
  "jsOr t a b = (if truthy t a then a else b)"

text \<open>\<^verbatim>\<open>a || 'literal'\<close>: the right operand is a value that is always there.\<close>

definition jsOrDefault :: "('a \<Rightarrow> bool) \<Rightarrow> 'a option \<Rightarrow> 'a \<Rightarrow> 'a" where
  "jsOrDefault t a d = (case a of None \<Rightarrow> d | Some x \<Rightarrow> if t x then x else d)"

text \<open>\<^verbatim>\<open>o?.f\<close>: the property of an object that may be absent.\<close>

definition optChain :: "'a option \<Rightarrow> ('a \<Rightarrow> 'b option) \<Rightarrow> 'b option" where
  "optChain obj f = (case obj of None \<Rightarrow> None | Some x \<Rightarrow> f x)"

definition lowerChar :: "char \<Rightarrow> char" where
  "lowerChar c =
     (case map_of (zip ''ABCDEFGHIJKLMNOPQRSTUVWXYZ'' ''abcdefghijklmnopqrstuvwxyz'') c of
        None \<Rightarrow> c | Some l \<Rightarrow> l)"

definition upperChar :: "char \<Rightarrow> char" where
  "upperChar c =
     (case map_of (zip ''abcdefghijklmnopqrstuvwxyz'' ''ABCDEFGHIJKLMNOPQRSTUVWXYZ'') c of
        None \<Rightarrow> c | Some u \<Rightarrow> u)"

definition toLowerCase :: "string \<Rightarrow> string" where
  "toLowerCase s = map lowerChar s"

definition toUpperCase :: "string \<Rightarrow> string" where
  "toUpperCase s = map upperChar s"

text \<open>\<^verbatim>\<open>s.includes(kw)\<close>: \<open>kw\<close> starts at some position of \<open>s\<close>.\<close>

fun includesStr :: "string \<Rightarrow> string \<Rightarrow> bool" where
  "includesStr [] kw = (kw = [])"
| "includesStr (c # cs) kw = (take (length kw) (c # cs) = kw \<or> includesStr cs kw)"

text \<open>
  The characters \<^verbatim>\<open>trim\<close> strips: space, tab, line feed, vertical tab, form feed,
  carriage return and no-break space (the ones below 256).
\<close>

definition isWhiteSpace :: "char \<Rightarrow> bool" where
  "isWhiteSpace c =
     (c \<in> set [CHR '' '', CHR 0x09, CHR 0x0A, CHR 0x0B, CHR 0x0C, CHR 0x0D, CHR 0xA0])"

definition trim :: "string \<Rightarrow> string" where
  "trim s = rev (dropWhile isWhiteSpace (rev (dropWhile isWhiteSpace s)))"

text \<open>\<^verbatim>\<open>xs.join(sep)\<close>\<close>

fun join :: "string \<Rightarrow> string list \<Rightarrow> string" where
  "join sep [] = []"
| "join sep [x] = x"
| "join sep (x # y # ys) = x @ sep @ join sep (y # ys)"

subsection \<open>Numbers\<close>

text \<open>
  A JavaScript number is an IEEE 754 binary64 value. A finite one is modelled by the rational
  it denotes, and every arithmetic operation of the source is the exact operation followed by
  \<open>fl\<close>, rounding to the nearest value with a 53-bit significand, ties to even. The model has
  no exponent bounds (no overflow to Infinity, no subnormal numbers) and no NaN; the amounts
  of money handled here are far inside the normal range.
\<close>

text \<open>The number of binary digits of a positive integer.\<close>

function bitLength :: "int \<Rightarrow> int" where
  "bitLength n = (if n \<le> 0 then 0 else bitLength (n div 2) + 1)"
  by pat_completeness auto
termination
  by (relation "measure nat") auto

declare bitLength.simps [simp del]

text \<open>The exponent \<open>e\<close> with \<open>2 ^ e \<le> a < 2 ^ (e + 1)\<close>, for positive \<open>a\<close>.\<close>

definition binadeExp :: "rat \<Rightarrow> int" where
  "binadeExp a =
     (if 1 \<le> a then bitLength \<lfloor>a\<rfloor> - 1
      else (let k = bitLength \<lfloor>1 / a\<rfloor> - 1
            in if 2 powi (- k) \<le> a then - k else - k - 1))"

definition roundHalfEven :: "rat \<Rightarrow> int" where
  "roundHalfEven x =
     (let f = \<lfloor>x\<rfloor>; d = x - of_int f
      in if d < 1 / 2 then f else if 1 / 2 < d then f + 1 else if even f then f else f + 1)"

definition fl :: "rat \<Rightarrow> rat" where
  "fl x =
     (if x = 0 then 0
      else (let a = \<bar>x\<bar>; u = 2 powi (binadeExp a - 52)
            in sgn x * of_int (roundHalfEven (a / u)) * u))"

text \<open>\<^verbatim>\<open>Math.round\<close>: the nearest integer, a tie going up.\<close>

definition mathRound :: "rat \<Rightarrow> int" where
  "mathRound x = \<lfloor>x + 1 / 2\<rfloor>"

definition mathCeil :: "rat \<Rightarrow> int" where
  "mathCeil x = \<lceil>x\<rceil>"

section \<open>utils/helpers.ts\<close>

datatype js_error =
    BookstoreError (message: string) (statusCode: nat)
  | Error (message: string)

definition poundsToPence :: "rat \<Rightarrow> int" where
  "poundsToPence pounds = mathRound (fl (pounds * 100))"

text \<open>
  \<^verbatim>\<open>isbn.replace(/[^0-9X]/gi, '')\<close>: with the \<open>i\<close> flag the class holds the digits and
  both cases of the letter X; every other character is deleted.
\<close>

definition isbnChar :: "char \<Rightarrow> bool" where
  "isbnChar c = (c \<in> set ''0123456789Xx'')"

definition normalizeISBN :: "string \<Rightarrow> string" where
  "normalizeISBN isbn = toUpperCase (filter isbnChar isbn)"

definition isValidISBN :: "string \<Rightarrow> bool" where
  "isValidISBN isbn =
     (let normalized = normalizeISBN isbn
      in length normalized = 10 \<or> length normalized = 13)"

section \<open>Pricing (MetadataService.calculateSuggestedPrice)\<close>

definition conditionMultiplier :: "string \<Rightarrow> rat" where
  "conditionMultiplier condition =
     (if condition = ''like_new'' then fl (12 / 10)
      else if condition = ''very_good'' then fl (11 / 10)
      else if condition = ''good'' then 1
      else if condition = ''acceptable'' then fl (8 / 10)
      else 1)"

definition calculateSuggestedPrice :: "rat \<Rightarrow> string \<Rightarrow> int" where
  "calculateSuggestedPrice costPrice condition =
     (let baseMarkup = 3;
          calculatedPrice = fl (fl (costPrice * baseMarkup) * conditionMultiplier condition);
          rounded = fl (of_int (mathCeil calculatedPrice) - fl (1 / 100))
      in mathRound (fl (rounded * 100)))"

text \<open>
  The pricing rule in the words of the specification, for comparison with the code: the
  product in major units, rounded up to a whole unit, less 0.01, in minor units.
\<close>

definition specMultiplier :: "string \<Rightarrow> rat" where
  "specMultiplier condition =
     (if condition = ''like_new'' then 12 / 10
      else if condition = ''very_good'' then 11 / 10
      else if condition = ''good'' then 1
      else if condition = ''acceptable'' then 8 / 10
      else 1)"

definition specSuggestedPrice :: "int \<Rightarrow> string \<Rightarrow> int" where
  "specSuggestedPrice c condition =
     round ((of_int \<lceil>(of_int c / 100) * 3 * specMultiplier condition\<rceil> - 1 / 100) * (100 :: rat))"

section \<open>services/enrichment.ts\<close>

record Review =
  review_source :: string
  review_rating :: "rat option"
  review_text :: string
  review_author :: "string option"
  review_date :: "string option"

record AIEnrichment =
  emotional_tone :: "string list option"
  shock_factor :: "int option"
  pace :: "string option"
  atmosphere :: "string list option"
  vibe_keywords :: "string option"
  themes :: "string list option"
  similar_to :: "string list option"

definition extractVibeKeywords :: "string option \<Rightarrow> string" where
  "extractVibeKeywords description =
     (case description of
        None \<Rightarrow> []
      | Some d \<Rightarrow> if d = [] then [] else trim (take 100 d))"

definition commonThemes :: "string list" where
  "commonThemes =
     [''love'', ''death'', ''war'', ''family'', ''identity'', ''power'',
      ''betrayal'', ''revenge'', ''redemption'', ''coming-of-age'',
      ''mystery'', ''adventure'', ''romance'', ''tragedy'']"

definition extractThemes :: "string option \<Rightarrow> string list" where
  "extractThemes description =
     (case description of
        None \<Rightarrow> []
      | Some d \<Rightarrow> if d = [] then [] else filter (includesStr (toLowerCase d)) commonThemes)"

text \<open>
  The keyword buckets of \<^verbatim>\<open>inferEmotionalTone\<close> and \<^verbatim>\<open>inferAtmosphere\<close>, in the
  order \<^verbatim>\<open>Object.entries\<close> yields them; a bucket contributes its label when some keyword
  of it occurs.
\<close>

definition matchBuckets :: "(string \<times> string list) list \<Rightarrow> string \<Rightarrow> string list" where
  "matchBuckets buckets lowerDesc =
     map fst (filter (\<lambda>(label, keywords). list_ex (includesStr lowerDesc) keywords) buckets)"

definition toneKeywords :: "(string \<times> string list) list" where
  "toneKeywords =
     [(''dark'', [''dark'', ''grim'', ''bleak'', ''sinister'', ''ominous'']),
      (''uplifting'', [''hope'', ''joy'', ''triumph'', ''inspiring'', ''uplifting'']),
      (''melancholic'', [''sad'', ''melancholic'', ''sorrowful'', ''tragic'', ''loss'']),
      (''humorous'', [''funny'', ''witty'', ''comedy'', ''humorous'', ''satire'']),
      (''intense'', [''intense'', ''gripping'', ''powerful'', ''visceral'', ''raw''])]"

definition inferEmotionalTone :: "string option \<Rightarrow> string list" where
  "inferEmotionalTone description =
     (case description of
        None \<Rightarrow> [''neutral'']
      | Some d \<Rightarrow>
          if d = [] then [''neutral'']
          else (let tones = matchBuckets toneKeywords (toLowerCase d)
                in if 0 < length tones then tones else [''neutral'']))"

definition shockKeywords :: "string list" where
  "shockKeywords =
     [''shocking'', ''disturbing'', ''graphic'', ''controversial'',
      ''provocative'', ''unsettling'', ''dark'', ''twisted'']"

definition calculateShockFactor :: "string option \<Rightarrow> Review list option \<Rightarrow> int" where
  "calculateShockFactor description reviews =
     (let score =
            (case description of
               None \<Rightarrow> 5
             | Some d \<Rightarrow>
                 if d = [] then 5
                 else 5 + int (length (filter (includesStr (toLowerCase d)) shockKeywords)))
      in min (max score 1) 10)"

definition inferPace :: "string option \<Rightarrow> string" where
  "inferPace description =
     (case description of
        None \<Rightarrow> ''moderate''
      | Some d \<Rightarrow>
          if d = [] then ''moderate''
          else (let lowerDesc = toLowerCase d
                in if includesStr lowerDesc ''slow'' \<or> includesStr lowerDesc ''meditative''
                   then ''slow_burn''
                   else if includesStr lowerDesc ''fast'' \<or> includesStr lowerDesc ''thriller''
                           \<or> includesStr lowerDesc ''action''
                   then ''fast_paced''
                   else ''moderate''))"

definition atmosphereKeywords :: "(string \<times> string list) list" where
  "atmosphereKeywords =
     [(''atmospheric'', [''atmospheric'', ''immersive'', ''vivid'']),
      (''dark'', [''dark'', ''gothic'', ''noir'']),
      (''light'', [''light'', ''cheerful'', ''bright'']),
      (''mysterious'', [''mystery'', ''mysterious'', ''enigmatic'']),
      (''romantic'', [''romantic'', ''love'', ''passion''])]"

definition inferAtmosphere :: "string option \<Rightarrow> string list" where
  "inferAtmosphere description =
     (case description of
        None \<Rightarrow> []
      | Some d \<Rightarrow> if d = [] then [] else matchBuckets atmosphereKeywords (toLowerCase d))"

text \<open>
  \<^verbatim>\<open>enrichBook\<close>. The heuristics are total on strings, so the \<^verbatim>\<open>catch\<close> branch of the
  source (the minimal record built from title and author) is never taken.
\<close>

definition enrichBook ::
  "string \<Rightarrow> string \<Rightarrow> string option \<Rightarrow> Review list option \<Rightarrow> AIEnrichment" where
  "enrichBook title author description reviews =
     \<lparr> emotional_tone = Some (inferEmotionalTone description),
       shock_factor = Some (calculateShockFactor description reviews),
       pace = Some (inferPace description),
       atmosphere = Some (inferAtmosphere description),
       vibe_keywords = Some (extractVibeKeywords description),
       themes = Some (extractThemes description),
       similar_to = Some [] \<rparr>"

section \<open>types.ts\<close>

datatype BookCondition = like_new | very_good | good | acceptable

datatype BookStatus = draft | pending_review | live | sold | removed

text \<open>The string a condition is in the source (the type is a union of string literals).\<close>

fun conditionName :: "BookCondition \<Rightarrow> string" where
  "conditionName like_new = ''like_new''"
| "conditionName very_good = ''very_good''"
| "conditionName good = ''good''"
| "conditionName acceptable = ''acceptable''"

record BookMetadata =
  publisher :: "string option"
  publish_date :: "string option"
  page_count :: "rat option"
  language :: "string option"
  categories :: "string list option"
  isbn_10 :: "string option"
  isbn_13 :: "string option"
  goodreads_url :: "string option"
  average_rating :: "rat option"
  ratings_count :: "rat option"

text \<open>
  \<^verbatim>\<open>Book\<close>. The field \<^verbatim>\<open>id\<close> is \<open>book_id\<close> here. Prices are integers, in pence, as the
  declaration and the schema say.
\<close>

record Book =
  book_id :: string
  isbn :: string
  title :: string
  author :: string
  description :: "string option"
  cover_url :: "string option"
  condition :: BookCondition
  cost_price :: int
  sell_price :: int
  in_stock :: bool
  metadata :: "BookMetadata option"
  vibe_tags :: "string option"
  ai_enrichment :: "AIEnrichment option"
  review_summary :: "string option"
  vector_id :: "string option"
  status :: BookStatus
  created_at :: string
  updated_at :: string
  sold_at :: "string option"

text \<open>
  A property of an object read from JSON: \<^verbatim>\<open>undefined\<close> (not there), \<^verbatim>\<open>null\<close>, or a
  value, which is taken to be of the type the interface declares for the property.
\<close>

datatype 'a Prop = Undefined | Null | Value 'a

text \<open>
  \<^verbatim>\<open>p || d\<close> for a property whose values are all truthy (a condition, a status),
  \<^verbatim>\<open>p\<close> read as an optional value, and an optional value as a property.
\<close>

definition propOr :: "'a Prop \<Rightarrow> 'a \<Rightarrow> 'a" where
  "propOr p d = (case p of Value x \<Rightarrow> x | _ \<Rightarrow> d)"

definition propOption :: "'a Prop \<Rightarrow> 'a option" where
  "propOption p = (case p of Value x \<Rightarrow> Some x | _ \<Rightarrow> None)"

definition ofOption :: "'a option \<Rightarrow> 'a Prop" where
  "ofOption v = (case v of None \<Rightarrow> Undefined | Some x \<Rightarrow> Value x)"

text \<open>\<^verbatim>\<open>Partial<Book>\<close>: every property of \<^verbatim>\<open>Book\<close>, each optional.\<close>

record PartialBook =
  p_id :: "string Prop"
  p_isbn :: "string Prop"
  p_title :: "string Prop"
  p_author :: "string Prop"
  p_description :: "string Prop"
  p_cover_url :: "string Prop"
  p_condition :: "BookCondition Prop"
  p_cost_price :: "int Prop"
  p_sell_price :: "int Prop"
  p_in_stock :: "bool Prop"
  p_metadata :: "BookMetadata Prop"
  p_vibe_tags :: "string Prop"
  p_ai_enrichment :: "AIEnrichment Prop"
  p_review_summary :: "string Prop"
  p_vector_id :: "string Prop"
  p_status :: "BookStatus Prop"
  p_created_at :: "string Prop"
  p_updated_at :: "string Prop"
  p_sold_at :: "string Prop"

definition emptyPartial :: PartialBook where
  "emptyPartial =
     \<lparr> p_id = Undefined, p_isbn = Undefined, p_title = Undefined, p_author = Undefined,
       p_description = Undefined, p_cover_url = Undefined, p_condition = Undefined,
       p_cost_price = Undefined, p_sell_price = Undefined, p_in_stock = Undefined,
       p_metadata = Undefined, p_vibe_tags = Undefined, p_ai_enrichment = Undefined,
       p_review_summary = Undefined, p_vector_id = Undefined, p_status = Undefined,
       p_created_at = Undefined, p_updated_at = Undefined, p_sold_at = Undefined \<rparr>"

record OpenLibraryAuthor =
  name :: string

record OpenLibraryData =
  ol_title :: "string option"
  ol_authors :: "OpenLibraryAuthor list option"
  ol_description :: "string option"
  ol_cover_url :: "string option"
  ol_publish_date :: "string option"
  ol_publishers :: "string list option"
  ol_number_of_pages :: "rat option"
  ol_subjects :: "string list option"

record GoogleBooksData =
  gb_title :: "string option"
  gb_authors :: "string list option"
  gb_description :: "string option"
  gb_cover_url :: "string option"
  gb_publishedDate :: "string option"
  gb_publisher :: "string option"
  gb_pageCount :: "rat option"
  gb_categories :: "string list option"
  gb_averageRating :: "rat option"
  gb_ratingsCount :: "rat option"

text \<open>\<^verbatim>\<open>ExternalMetadata\<close>; its \<^verbatim>\<open>reviews\<close> and \<^verbatim>\<open>market_prices\<close> are never written.\<close>

record ExternalMetadata =
  open_library :: "OpenLibraryData option"
  google_books :: "GoogleBooksData option"

record IngestBookRequest =
  req_isbn :: string
  req_condition :: BookCondition
  req_cost_price :: rat
  custom_title :: "string option"
  custom_author :: "string option"

record IngestBookResponse =
  res_success :: bool
  res_book_id :: string
  res_book :: Book
  res_metadata :: ExternalMetadata
  res_suggested_price :: "rat option"
  res_errors :: "string list option"

section \<open>The collaborators\<close>

text \<open>
  What a provider lookup meets: \<^verbatim>\<open>fetch\<close> or the JSON decoding throws, the response is
  not ok, the answer has no entry for the identifier, or the answer has one (here already in
  the shape the source builds from it).
\<close>

datatype 'a Lookup = Threw | NotOk nat | NoEntry | Entry 'a

text \<open>
  The answer to the download of an image: whether the response is ok, its content type
  header, and whether reading the body succeeds.
\<close>

record ImageResponse =
  resp_ok :: bool
  resp_content_type :: "string option"
  resp_body_read :: bool

text \<open>
  The world outside one request: the two providers, the image host (\<^term>\<open>None\<close> when
  \<^verbatim>\<open>fetch\<close> throws), whether the object store accepts a write under a key, the identifier
  \<^verbatim>\<open>crypto.randomUUID()\<close> returns, and the clock at the insert and at the later update.
\<close>

record Env =
  open_library_api :: "string \<Rightarrow> OpenLibraryData Lookup"
  google_books_api :: "string \<Rightarrow> GoogleBooksData Lookup"
  fetch_image :: "string \<Rightarrow> ImageResponse option"
  assets_put :: "string \<Rightarrow> bool"
  random_uuid :: string
  clock_insert :: string
  clock_update :: string

section \<open>services/metadata.ts\<close>

definition fetchOpenLibrary :: "Env \<Rightarrow> string \<Rightarrow> OpenLibraryData option" where
  "fetchOpenLibrary env normalizedISBN =
     (case open_library_api env normalizedISBN of
        Threw \<Rightarrow> None
      | NotOk code \<Rightarrow> None
      | NoEntry \<Rightarrow> None
      | Entry book \<Rightarrow> Some book)"

definition fetchGoogleBooks :: "Env \<Rightarrow> string \<Rightarrow> GoogleBooksData option" where
  "fetchGoogleBooks env normalizedISBN =
     (case google_books_api env normalizedISBN of
        Threw \<Rightarrow> None
      | NotOk code \<Rightarrow> None
      | NoEntry \<Rightarrow> None
      | Entry book \<Rightarrow> Some book)"

text \<open>
  \<^verbatim>\<open>fetchMetadata\<close>. Neither lookup can reject (each catches everything), so both
  promises of \<^verbatim>\<open>Promise.allSettled\<close> are fulfilled and both values are stored.
\<close>

definition fetchMetadata :: "Env \<Rightarrow> string \<Rightarrow> js_error + ExternalMetadata" where
  "fetchMetadata env i =
     (let normalizedISBN = normalizeISBN i;
          openLibrary = fetchOpenLibrary env normalizedISBN;
          googleBooks = fetchGoogleBooks env normalizedISBN
      in if openLibrary = None \<and> googleBooks = None
         then Inl (BookstoreError (''Could not fetch metadata for ISBN: '' @ i) 404)
         else Inr \<lparr> open_library = openLibrary, google_books = googleBooks \<rparr>)"

definition extractAuthor :: "GoogleBooksData option \<Rightarrow> OpenLibraryData option \<Rightarrow> string" where
  "extractAuthor gb ol =
     (case optChain gb gb_authors of
        Some (a # as) \<Rightarrow> join '', '' (a # as)
      | _ \<Rightarrow>
          (case optChain ol ol_authors of
             Some (a # as) \<Rightarrow> join '', '' (map name (a # as))
           | _ \<Rightarrow> ''Unknown Author''))"

definition extractCoverUrl ::
  "GoogleBooksData option \<Rightarrow> OpenLibraryData option \<Rightarrow> string option" where
  "extractCoverUrl gb ol =
     (if truthy truthyString (optChain gb gb_cover_url) then optChain gb gb_cover_url
      else if truthy truthyString (optChain ol ol_cover_url) then optChain ol ol_cover_url
      else None)"

definition extractISBN13 ::
  "GoogleBooksData option \<Rightarrow> OpenLibraryData option \<Rightarrow> string option" where
  "extractISBN13 gb ol = None"

text \<open>\<^verbatim>\<open>xs?.[0]\<close> and \<^verbatim>\<open>xs?.slice(0, 5)\<close> on a list that may be absent.\<close>

definition firstOf :: "'a list option \<Rightarrow> 'a option" where
  "firstOf xs = (case xs of Some (x # _) \<Rightarrow> Some x | _ \<Rightarrow> None)"

definition slice5 :: "'a list option \<Rightarrow> 'a list option" where
  "slice5 xs = map_option (take 5) xs"

record Merged =
  m_title :: string
  m_author :: string
  m_description :: "string option"
  m_cover_url :: "string option"
  m_metadata :: BookMetadata

definition mergeMetadata :: "ExternalMetadata \<Rightarrow> Merged" where
  "mergeMetadata external =
     (let ol = open_library external;
          gb = google_books external
      in \<lparr> m_title =
             jsOrDefault truthyString
               (jsOr truthyString (optChain gb gb_title) (optChain ol ol_title))
               ''Unknown Title'',
           m_author = extractAuthor gb ol,
           m_description =
             jsOr truthyString (optChain gb gb_description) (optChain ol ol_description),
           m_cover_url = extractCoverUrl gb ol,
           m_metadata =
             \<lparr> publisher =
                 jsOr truthyString (optChain gb gb_publisher) (firstOf (optChain ol ol_publishers)),
               publish_date =
                 jsOr truthyString (optChain gb gb_publishedDate) (optChain ol ol_publish_date),
               page_count =
                 jsOr truthyNumber (optChain gb gb_pageCount) (optChain ol ol_number_of_pages),
               language = Some ''en'',
               categories =
                 jsOr truthyObject (optChain gb gb_categories) (slice5 (optChain ol ol_subjects)),
               isbn_10 = None,
               isbn_13 = extractISBN13 gb ol,
               goodreads_url = None,
               average_rating = optChain gb gb_averageRating,
               ratings_count = optChain gb gb_ratingsCount \<rparr> \<rparr>)"

section \<open>services/storage.ts\<close>

text \<open>
  \<^verbatim>\<open>getFileExtension\<close> looks the content type up in an object literal and so finds, beside
  the six keys of the table, the properties every object inherits; such a property is a
  function (the prototype itself for \<^verbatim>\<open>__proto__\<close>), which is truthy and which the
  template of the key then turns into text. The result here is that text.
\<close>

definition extensions :: "(string \<times> string) list" where
  "extensions =
     [(''image/jpeg'', ''.jpg''), (''image/jpg'', ''.jpg''), (''image/png'', ''.png''),
      (''image/gif'', ''.gif''), (''image/webp'', ''.webp''), (''application/pdf'', ''.pdf'')]"

definition nativeFunction :: "string \<Rightarrow> string" where
  "nativeFunction f = ''function '' @ f @ ''() { [native code] }''"

definition inheritedProperties :: "(string \<times> string) list" where
  "inheritedProperties =
     [(''constructor'', nativeFunction ''Object''),
      (''__defineGetter__'', nativeFunction ''__defineGetter__''),
      (''__defineSetter__'', nativeFunction ''__defineSetter__''),
      (''hasOwnProperty'', nativeFunction ''hasOwnProperty''),
      (''__lookupGetter__'', nativeFunction ''__lookupGetter__''),
      (''__lookupSetter__'', nativeFunction ''__lookupSetter__''),
      (''isPrototypeOf'', nativeFunction ''isPrototypeOf''),
      (''propertyIsEnumerable'', nativeFunction ''propertyIsEnumerable''),
      (''toString'', nativeFunction ''toString''),
      (''valueOf'', nativeFunction ''valueOf''),
      (''toLocaleString'', nativeFunction ''toLocaleString''),
      (''__proto__'', ''[object Object]'')]"

definition getFileExtension :: "string \<Rightarrow> string" where
  "getFileExtension contentType =
     (case map_of extensions contentType of
        Some ext \<Rightarrow> ext
      | None \<Rightarrow>
          (case map_of inheritedProperties contentType of
             Some inherited \<Rightarrow> inherited
           | None \<Rightarrow> ''.jpg''))"

definition getPublicUrl :: "string \<Rightarrow> string" where
  "getPublicUrl key = ''/assets/'' @ key"

text \<open>
  \<^verbatim>\<open>fetch(imageUrl)\<close>. The platform reads its argument as an absolute URL: for the empty
  string and for a string that starts with a slash, which have no scheme, \<^verbatim>\<open>fetch\<close>
  throws before anything is sent. For every other string the image host decides.
\<close>

definition fetchUrl :: "Env \<Rightarrow> string \<Rightarrow> ImageResponse option" where
  "fetchUrl env url =
     (case url of
        [] \<Rightarrow> None
      | c # rest \<Rightarrow> if c = CHR ''/'' then None else fetch_image env url)"

text \<open>
  \<^verbatim>\<open>uploadBookCover\<close>: the whole body is inside one \<^verbatim>\<open>try\<close>, and the \<^verbatim>\<open>catch\<close>
  returns the URL it was given.
\<close>

definition uploadBookCover :: "Env \<Rightarrow> string \<Rightarrow> string \<Rightarrow> string" where
  "uploadBookCover env bookId imageUrl =
     (case fetchUrl env imageUrl of
        None \<Rightarrow> imageUrl
      | Some response \<Rightarrow>
          if \<not> resp_ok response then imageUrl
          else (let contentType = jsOrDefault truthyString (resp_content_type response) ''image/jpeg''
                in if \<not> resp_body_read response then imageUrl
                   else (let fileExtension = getFileExtension contentType;
                             key = ''covers/'' @ bookId @ fileExtension
                         in if assets_put env key then getPublicUrl key else imageUrl)))"

section \<open>services/database.ts and schema.sql\<close>

text \<open>
  The table \<^verbatim>\<open>books\<close> is the list of its rows in insertion order. A row has the columns
  of \<^verbatim>\<open>Book\<close>: \<^verbatim>\<open>deserializeBook\<close> undoes the encodings of the write path (0 and 1
  for the stock flag, JSON text for the two bags), so a row is kept as the \<^typ>\<open>Book\<close> it
  reads back as, with \<^term>\<open>None\<close> for NULL. The store is taken to be reachable; a
  statement fails only where the schema or the binding of a parameter makes it fail.
\<close>

type_synonym Database = "Book list"

text \<open>\<^verbatim>\<open>value || null\<close> when a text parameter is bound.\<close>

definition orNull :: "string option \<Rightarrow> string option" where
  "orNull v = jsOr truthyString v None"

definition toRow :: "Book \<Rightarrow> Book" where
  "toRow book =
     book\<lparr> description := orNull (description book),
           cover_url := orNull (cover_url book),
           vibe_tags := orNull (vibe_tags book),
           review_summary := orNull (review_summary book),
           vector_id := orNull (vector_id book) \<rparr>"

definition getBook :: "Database \<Rightarrow> string \<Rightarrow> Book option" where
  "getBook db bookId = find (\<lambda>row. book_id row = bookId) db"

definition getBookByISBN :: "Database \<Rightarrow> string \<Rightarrow> Book option" where
  "getBookByISBN db i = find (\<lambda>row. isbn row = i) db"

text \<open>
  \<^verbatim>\<open>createBook\<close>, with the identifier and the timestamp it draws. The insert fails when
  a parameter of a NOT NULL column is \<^verbatim>\<open>undefined\<close> (it cannot be bound) or
  \<^verbatim>\<open>null\<close>, and when the primary key or the UNIQUE identifier is already in the table.
\<close>

definition createBook ::
  "Database \<Rightarrow> string \<Rightarrow> string \<Rightarrow> PartialBook \<Rightarrow> (js_error + Book) \<times> Database" where
  "createBook db newId now bookData =
     (case (p_isbn bookData, p_title bookData, p_author bookData,
            p_cost_price bookData, p_sell_price bookData) of
        (Value i, Value t, Value a, Value c, Value s) \<Rightarrow>
          (let book =
                 \<lparr> book_id = newId,
                   isbn = i,
                   title = t,
                   author = a,
                   description = propOption (p_description bookData),
                   cover_url = propOption (p_cover_url bookData),
                   condition = propOr (p_condition bookData) good,
                   cost_price = c,
                   sell_price = s,
                   in_stock = True,
                   metadata = propOption (p_metadata bookData),
                   vibe_tags = propOption (p_vibe_tags bookData),
                   ai_enrichment = propOption (p_ai_enrichment bookData),
                   review_summary = propOption (p_review_summary bookData),
                   vector_id = propOption (p_vector_id bookData),
                   status = propOr (p_status bookData) draft,
                   created_at = now,
                   updated_at = now,
                   sold_at = None \<rparr>
           in if getBook db newId = None \<and> getBookByISBN db i = None
              then (Inr book, db @ [toRow book])
              else (Inl (Error ''D1_ERROR: UNIQUE constraint failed''), db))
      | _ \<Rightarrow>
          (if p_isbn bookData = Undefined \<or> p_title bookData = Undefined
                \<or> p_author bookData = Undefined \<or> p_cost_price bookData = Undefined
                \<or> p_sell_price bookData = Undefined
           then (Inl (Error ''D1_TYPE_ERROR: Type undefined not supported''), db)
           else (Inl (Error ''D1_ERROR: NOT NULL constraint failed''), db)))"

text \<open>
  \<^verbatim>\<open>updateBook\<close> builds its statement at run time: it reads \<^verbatim>\<open>updates[field]\<close> by name
  and writes \<^verbatim>\<open>field = ?\<close>. The model keeps that: \<open>getField\<close> reads any property of the
  payload by name (\<^term>\<open>None\<close> when it is \<^verbatim>\<open>undefined\<close>, \<open>VNull\<close> when it is
  \<^verbatim>\<open>null\<close>), \<open>setColumn\<close> writes any column of a row by name.
\<close>

datatype FieldValue =
    VNull
  | VString string
  | VNumber int
  | VBoolean bool
  | VCondition BookCondition
  | VStatus BookStatus
  | VMetadata BookMetadata
  | VEnrichment AIEnrichment

definition propValue :: "('a \<Rightarrow> FieldValue) \<Rightarrow> 'a Prop \<Rightarrow> FieldValue option" where
  "propValue wrap p = (case p of Undefined \<Rightarrow> None | Null \<Rightarrow> Some VNull | Value x \<Rightarrow> Some (wrap x))"

definition getField :: "PartialBook \<Rightarrow> string \<Rightarrow> FieldValue option" where
  "getField updates field =
     (if field = ''id'' then propValue VString (p_id updates)
      else if field = ''isbn'' then propValue VString (p_isbn updates)
      else if field = ''title'' then propValue VString (p_title updates)
      else if field = ''author'' then propValue VString (p_author updates)
      else if field = ''description'' then propValue VString (p_description updates)
      else if field = ''cover_url'' then propValue VString (p_cover_url updates)
      else if field = ''condition'' then propValue VCondition (p_condition updates)
      else if field = ''cost_price'' then propValue VNumber (p_cost_price updates)
      else if field = ''sell_price'' then propValue VNumber (p_sell_price updates)
      else if field = ''in_stock'' then propValue VBoolean (p_in_stock updates)
      else if field = ''metadata'' then propValue VMetadata (p_metadata updates)
      else if field = ''vibe_tags'' then propValue VString (p_vibe_tags updates)
      else if field = ''ai_enrichment'' then propValue VEnrichment (p_ai_enrichment updates)
      else if field = ''review_summary'' then propValue VString (p_review_summary updates)
      else if field = ''vector_id'' then propValue VString (p_vector_id updates)
      else if field = ''status'' then propValue VStatus (p_status updates)
      else if field = ''created_at'' then propValue VString (p_created_at updates)
      else if field = ''updated_at'' then propValue VString (p_updated_at updates)
      else if field = ''sold_at'' then propValue VString (p_sold_at updates)
      else None)"

text \<open>
  The columns the schema declares NOT NULL. A statement that would leave NULL in one of them
  fails and changes nothing.
\<close>

definition notNullColumns :: "string list" where
  "notNullColumns =
     [''id'', ''isbn'', ''title'', ''author'', ''condition'', ''cost_price'', ''sell_price'',
      ''in_stock'', ''status'', ''created_at'', ''updated_at'']"

definition setColumn :: "string \<Rightarrow> FieldValue \<Rightarrow> Book \<Rightarrow> Book" where
  "setColumn field v row =
     (if field = ''id'' then (case v of VString x \<Rightarrow> row\<lparr>book_id := x\<rparr> | _ \<Rightarrow> row)
      else if field = ''isbn'' then (case v of VString x \<Rightarrow> row\<lparr>isbn := x\<rparr> | _ \<Rightarrow> row)
      else if field = ''title'' then (case v of VString x \<Rightarrow> row\<lparr>title := x\<rparr> | _ \<Rightarrow> row)
      else if field = ''author'' then (case v of VString x \<Rightarrow> row\<lparr>author := x\<rparr> | _ \<Rightarrow> row)
      else if field = ''description''
        then (case v of VString x \<Rightarrow> row\<lparr>description := Some x\<rparr>
              | VNull \<Rightarrow> row\<lparr>description := None\<rparr> | _ \<Rightarrow> row)
      else if field = ''cover_url''
        then (case v of VString x \<Rightarrow> row\<lparr>cover_url := Some x\<rparr>
              | VNull \<Rightarrow> row\<lparr>cover_url := None\<rparr> | _ \<Rightarrow> row)
      else if field = ''condition''
        then (case v of VCondition x \<Rightarrow> row\<lparr>condition := x\<rparr> | _ \<Rightarrow> row)
      else if field = ''cost_price''
        then (case v of VNumber x \<Rightarrow> row\<lparr>cost_price := x\<rparr> | _ \<Rightarrow> row)
      else if field = ''sell_price''
        then (case v of VNumber x \<Rightarrow> row\<lparr>sell_price := x\<rparr> | _ \<Rightarrow> row)
      else if field = ''in_stock''
        then (case v of VBoolean x \<Rightarrow> row\<lparr>in_stock := x\<rparr> | _ \<Rightarrow> row)
      else if field = ''metadata''
        then (case v of VMetadata x \<Rightarrow> row\<lparr>metadata := Some x\<rparr>
              | VNull \<Rightarrow> row\<lparr>metadata := None\<rparr> | _ \<Rightarrow> row)
      else if field = ''vibe_tags''
        then (case v of VString x \<Rightarrow> row\<lparr>vibe_tags := Some x\<rparr>
              | VNull \<Rightarrow> row\<lparr>vibe_tags := None\<rparr> | _ \<Rightarrow> row)
      else if field = ''ai_enrichment''
        then (case v of VEnrichment x \<Rightarrow> row\<lparr>ai_enrichment := Some x\<rparr>
              | VNull \<Rightarrow> row\<lparr>ai_enrichment := None\<rparr> | _ \<Rightarrow> row)
      else if field = ''review_summary''
        then (case v of VString x \<Rightarrow> row\<lparr>review_summary := Some x\<rparr>
              | VNull \<Rightarrow> row\<lparr>review_summary := None\<rparr> | _ \<Rightarrow> row)
      else if field = ''vector_id''
        then (case v of VString x \<Rightarrow> row\<lparr>vector_id := Some x\<rparr>
              | VNull \<Rightarrow> row\<lparr>vector_id := None\<rparr> | _ \<Rightarrow> row)
      else if field = ''status'' then (case v of VStatus x \<Rightarrow> row\<lparr>status := x\<rparr> | _ \<Rightarrow> row)
      else if field = ''created_at''
        then (case v of VString x \<Rightarrow> row\<lparr>created_at := x\<rparr> | _ \<Rightarrow> row)
      else if field = ''updated_at''
        then (case v of VString x \<Rightarrow> row\<lparr>updated_at := x\<rparr> | _ \<Rightarrow> row)
      else if field = ''sold_at''
        then (case v of VString x \<Rightarrow> row\<lparr>sold_at := Some x\<rparr>
              | VNull \<Rightarrow> row\<lparr>sold_at := None\<rparr> | _ \<Rightarrow> row)
      else row)"

definition allowedFields :: "string list" where
  "allowedFields =
     [''title'', ''author'', ''description'', ''cover_url'',
      ''sell_price'', ''in_stock'', ''metadata'', ''vibe_tags'',
      ''ai_enrichment'', ''review_summary'', ''vector_id'', ''status'']"

text \<open>The loop over the allowed fields: the assignments of those the payload defines.\<close>

fun collectFields :: "string list \<Rightarrow> PartialBook \<Rightarrow> (string \<times> FieldValue) list" where
  "collectFields [] updates = []"
| "collectFields (field # rest) updates =
     (case getField updates field of
        None \<Rightarrow> collectFields rest updates
      | Some v \<Rightarrow> (field, v) # collectFields rest updates)"

text \<open>\<^verbatim>\<open>UPDATE books SET f1 = ?, ..., fn = ?\<close> on one row.\<close>

fun assign :: "(string \<times> FieldValue) list \<Rightarrow> Book \<Rightarrow> Book" where
  "assign [] row = row"
| "assign ((field, v) # rest) row = assign rest (setColumn field v row)"

text \<open>An assignment of NULL to a NOT NULL column.\<close>

definition nullsNotNull :: "(string \<times> FieldValue) list \<Rightarrow> bool" where
  "nullsNotNull assignments =
     list_ex (\<lambda>(field, v). v = VNull \<and> field \<in> set notNullColumns) assignments"

text \<open>
  \<^verbatim>\<open>updateBook\<close>: the book it returns (\<^term>\<open>None\<close> for \<^verbatim>\<open>null\<close>) or the error the
  statement throws, and the table afterwards.
\<close>

definition updateBook ::
  "Database \<Rightarrow> string \<Rightarrow> string \<Rightarrow> PartialBook \<Rightarrow> (js_error + Book option) \<times> Database" where
  "updateBook db now bookId updates =
     (case getBook db bookId of
        None \<Rightarrow> (Inr None, db)
      | Some existing \<Rightarrow>
          (let fields = collectFields allowedFields updates
           in if length fields = 0 then (Inr (Some existing), db)
              else if nullsNotNull (fields @ [(''updated_at'', VString now)])
              then (Inl (Error ''D1_ERROR: NOT NULL constraint failed''), db)
              else (let db' =
                          map (\<lambda>row. if book_id row = bookId
                                     then assign (fields @ [(''updated_at'', VString now)]) row
                                     else row) db
                    in (Inr (getBook db' bookId), db'))))"

subsection \<open>Keyword search\<close>





section \<open>routes/public.ts\<close>






section \<open>services/ingestion.ts\<close>

text \<open>
  Step 9 of \<^verbatim>\<open>ingestBook\<close>: the cover is transferred once the record exists, and the
  record is rewritten only when the transfer gave another URL. A failing rewrite is caught:
  it leaves the book as created and adds a soft error. The result is the book, the table and
  the soft errors of the step.
\<close>

definition uploadCoverStep ::
  "Env \<Rightarrow> Database \<Rightarrow> Book \<Rightarrow> string option \<Rightarrow> Book \<times> Database \<times> string list" where
  "uploadCoverStep env db createdBook coverUrl =
     (case coverUrl of
        None \<Rightarrow> (createdBook, db, [])
      | Some url \<Rightarrow>
          if truthyString url \<and> truthyString (book_id createdBook)
          then (let uploadedCoverUrl = uploadBookCover env (book_id createdBook) url
                in if uploadedCoverUrl \<noteq> url
                   then (case updateBook db (clock_update env) (book_id createdBook)
                                (emptyPartial\<lparr>p_cover_url := Value uploadedCoverUrl\<rparr>) of
                           (Inl e, db') \<Rightarrow>
                             (createdBook, db', [''Cover upload failed - using external URL''])
                         | (Inr updated, db') \<Rightarrow>
                             (createdBook\<lparr>cover_url := Some uploadedCoverUrl\<rparr>, db', []))
                   else (createdBook, db, []))
          else (createdBook, db, []))"

text \<open>The outer \<^verbatim>\<open>catch\<close>: a \<^verbatim>\<open>BookstoreError\<close> passes, anything else becomes a 500.\<close>

definition rethrow :: "js_error \<Rightarrow> js_error" where
  "rethrow e =
     (case e of
        BookstoreError msg code \<Rightarrow> e
      | Error msg \<Rightarrow> BookstoreError (''Failed to ingest book: '' @ msg) 500)"

text \<open>
  \<^verbatim>\<open>ingestBook\<close>. The result is the response or the error thrown, with the table as the
  call leaves it. The enrichment is the keyword analysis of this file, which cannot throw, so
  the only soft errors are those of the cover step.
\<close>

definition ingestBook ::
  "Env \<Rightarrow> Database \<Rightarrow> IngestBookRequest \<Rightarrow> (js_error + IngestBookResponse) \<times> Database" where
  "ingestBook env db request =
     (if \<not> isValidISBN (req_isbn request)
      then (Inl (BookstoreError ''Invalid ISBN format'' 400), db)
      else if req_cost_price request \<le> 0
      then (Inl (BookstoreError ''Cost price must be greater than 0'' 400), db)
      else (case getBookByISBN db (req_isbn request) of
              Some existing \<Rightarrow>
                (Inl (BookstoreError
                        (''Book with ISBN '' @ req_isbn request @ '' already exists (ID: ''
                           @ book_id existing @ '')'') 409), db)
            | None \<Rightarrow>
                (case fetchMetadata env (req_isbn request) of
                   Inl e \<Rightarrow>
                     (Inl (BookstoreError (''Failed to fetch metadata: '' @ message e) 404), db)
                 | Inr externalMetadata \<Rightarrow>
                     (let merged = mergeMetadata externalMetadata;
                          bookTitle = jsOrDefault truthyString (custom_title request) (m_title merged);
                          bookAuthor =
                            jsOrDefault truthyString (custom_author request) (m_author merged);
                          enrichment = enrichBook bookTitle bookAuthor (m_description merged) None;
                          coverUrl = m_cover_url merged;
                          cost_price_pence = poundsToPence (req_cost_price request);
                          suggested_price =
                            calculateSuggestedPrice (of_int cost_price_pence)
                              (conditionName (req_condition request));
                          bookData =
                            emptyPartial
                              \<lparr> p_isbn := Value (req_isbn request),
                                p_title := Value bookTitle,
                                p_author := Value bookAuthor,
                                p_description := ofOption (m_description merged),
                                p_cover_url := ofOption coverUrl,
                                p_condition := Value (req_condition request),
                                p_cost_price := Value cost_price_pence,
                                p_sell_price := Value suggested_price,
                                p_in_stock := Value True,
                                p_metadata := Value (m_metadata merged),
                                p_vibe_tags := ofOption (vibe_keywords enrichment),
                                p_ai_enrichment := Value enrichment,
                                p_status := Value pending_review \<rparr>
                      in case createBook db (random_uuid env) (clock_insert env) bookData of
                           (Inl e, db1) \<Rightarrow> (Inl (rethrow e), db1)
                         | (Inr createdBook, db1) \<Rightarrow>
                             (case uploadCoverStep env db1 createdBook coverUrl of
                                (finalBook, db2, errors) \<Rightarrow>
                                  (Inr \<lparr> res_success = True,
                                         res_book_id = book_id finalBook,
                                         res_book = finalBook,
                                         res_metadata = externalMetadata,
                                         res_suggested_price =
                                           Some (fl (of_int suggested_price / 100)),
                                         res_errors =
                                           (if length errors > 0 then Some errors else None) \<rparr>,
                                   db2))))))"

record ApproveUpdates =
  final_price :: "rat option"
  edit_title :: "string option"
  edit_author :: "string option"
  edit_description :: "string option"
  edit_vibe_tags :: "string option"

text \<open>An edit is taken over when it is truthy; otherwise the property stays undefined.\<close>

definition whenTruthy :: "string option \<Rightarrow> string Prop" where
  "whenTruthy v = (if truthy truthyString v then ofOption v else Undefined)"

definition approveBook ::
  "Database \<Rightarrow> string \<Rightarrow> string \<Rightarrow> ApproveUpdates option \<Rightarrow> (js_error + Book) \<times> Database" where
  "approveBook db now bookId updates =
     (case getBook db bookId of
        None \<Rightarrow> (Inl (BookstoreError ''Book not found'' 404), db)
      | Some book \<Rightarrow>
          if status book = live then (Inl (BookstoreError ''Book is already live'' 400), db)
          else (let updateData =
                      (case updates of
                         None \<Rightarrow> emptyPartial\<lparr>p_status := Value live\<rparr>
                       | Some u \<Rightarrow>
                           emptyPartial
                             \<lparr> p_status := Value live,
                               p_sell_price :=
                                 (if truthy truthyNumber (final_price u)
                                  then ofOption (map_option poundsToPence (final_price u))
                                  else Undefined),
                               p_title := whenTruthy (edit_title u),
                               p_author := whenTruthy (edit_author u),
                               p_description := whenTruthy (edit_description u),
                               p_vibe_tags := whenTruthy (edit_vibe_tags u) \<rparr>)
                in case updateBook db now bookId updateData of
                     (Inl e, db') \<Rightarrow> (Inl e, db')
                   | (Inr None, db') \<Rightarrow> (Inl (BookstoreError ''Failed to update book'' 500), db')
                   | (Inr (Some updatedBook), db') \<Rightarrow> (Inr updatedBook, db')))"

section \<open>Example data\<close>

text \<open>
  One identifier known to both providers, an image host that cannot be reached and one that
  serves a PNG image, a small table, and a stand-in for the full-text engine (it matches a
  query that occurs in the title, whatever the case, rejects with a syntax error a query
  that holds a hyphen or a double quote, and ranks short titles first).
\<close>

definition demoGoogleBooks :: GoogleBooksData where
  "demoGoogleBooks =
     \<lparr> gb_title = Some ''The Secret History'',
       gb_authors = Some [''Donna Tartt''],
       gb_description = Some ''A dark and TWISTED tale'',
       gb_cover_url = Some ''http://books.example/cover.png'',
       gb_publishedDate = Some ''2004'',
       gb_publisher = Some ''Vintage'',
       gb_pageCount = Some 559,
       gb_categories = Some [''Fiction''],
       gb_averageRating = None,
       gb_ratingsCount = None \<rparr>"

definition demoOpenLibrary :: OpenLibraryData where
  "demoOpenLibrary =
     \<lparr> ol_title = Some ''The secret history'',
       ol_authors = Some [\<lparr> name = ''Tartt, Donna'' \<rparr>],
       ol_description = None,
       ol_cover_url = Some ''http://covers.example/b/1-L.jpg'',
       ol_publish_date = Some ''2004'',
       ol_publishers = Some [''Vintage Books''],
       ol_number_of_pages = Some 559,
       ol_subjects = None \<rparr>"

definition demoEnv :: Env where
  "demoEnv =
     \<lparr> open_library_api = (\<lambda>k. if k = ''9780375757853'' then Entry demoOpenLibrary else NoEntry),
       google_books_api = (\<lambda>k. if k = ''9780375757853'' then Entry demoGoogleBooks else Threw),
       fetch_image = (\<lambda>u. None),
       assets_put = (\<lambda>k. True),
       random_uuid = ''book-2'',
       clock_insert = ''2025-10-21T10:00:00.000Z'',
       clock_update = ''2025-10-21T10:00:01.000Z'' \<rparr>"

definition demoEnvOnline :: Env where
  "demoEnvOnline =
     demoEnv\<lparr> fetch_image :=
                (\<lambda>u. Some \<lparr> resp_ok = True, resp_content_type = Some ''image/png'',
                              resp_body_read = True \<rparr>) \<rparr>"

definition demoRequest :: IngestBookRequest where
  "demoRequest =
     \<lparr> req_isbn = ''978-0-375-75785-3'', req_condition = very_good, req_cost_price = 5,
       custom_title = None, custom_author = None \<rparr>"

definition demoBook :: Book where
  "demoBook =
     \<lparr> book_id = ''book-1'',
       isbn = ''9780316769174'',
       title = ''The Catcher in the Rye'',
       author = ''J.D. Salinger'',
       description = None,
       cover_url = None,
       condition = good,
       cost_price = 350,
       sell_price = 999,
       in_stock = True,
       metadata = None,
       vibe_tags = None,
       ai_enrichment = None,
       review_summary = None,
       vector_id = None,
       status = pending_review,
       created_at = ''2025-10-20T09:00:00.000Z'',
       updated_at = ''2025-10-20T09:00:00.000Z'',
       sold_at = None \<rparr>"

definition demoLive :: Book where
  "demoLive =
     demoBook\<lparr> book_id := ''book-3'', isbn := ''9780141439518'',
               title := ''Pride and Prejudice'', author := ''Jane Austen'', status := live \<rparr>"

definition demoLiveShort :: Book where
  "demoLiveShort =
     demoBook\<lparr> book_id := ''book-5'', isbn := ''9780000000002'',
               title := ''Pride'', author := ''Ibi Zoboi'', status := live \<rparr>"

definition demoRemoved :: Book where
  "demoRemoved =
     demoBook\<lparr> book_id := ''book-4'', isbn := ''9780000000001'',
               title := ''Pride of Place'', status := removed \<rparr>"

definition demoDb :: Database where
  "demoDb = [demoBook, demoLive, demoLiveShort, demoRemoved]"


section \<open>Pricing\<close>

lemma example_pence: "poundsToPence 5 = 500"
  by code_simp

lemma example_price:
  "calculateSuggestedPrice (of_int (poundsToPence 5)) (conditionName very_good) = 165099"
  by code_simp

lemma example_spec_price: "specSuggestedPrice 500 ''very_good'' = 1699"
  by code_simp

lemma example_ingest:
  "(case fst (ingestBook demoEnv demoDb demoRequest) of
      Inl e \<Rightarrow> None
    | Inr res \<Rightarrow> Some (cost_price (res_book res), sell_price (res_book res)))
     = Some (500, 165099)"
  by code_simp

text \<open>
  Claim C1. The suggested price is \<open>round((ceil((c/100) \<times> 3.0 \<times> multiplier) - 0.01) \<times> 100)\<close>
  minor units, so that a cost of 500 minor units in condition very_good gives 1699. The code
  does not divide by 100: \<^verbatim>\<open>ingestBook\<close> hands it the cost in pence, and it rounds the
  product of the pence up, takes 0.01 off and multiplies by 100. For a cost of 5 pounds, which
  \<^verbatim>\<open>poundsToPence\<close> turns into 500, it returns 165099, where the rule of the
  specification gives 1699; the book of the example is stored with that sell price.
\<close>

theorem calculateSuggestedPrice_unit_mismatch:
  "poundsToPence 5 = 500 \<and>
   calculateSuggestedPrice (of_int (poundsToPence 5)) (conditionName very_good) = 165099 \<and>
   specSuggestedPrice 500 ''very_good'' = 1699 \<and>
   (case fst (ingestBook demoEnv demoDb demoRequest) of
      Inl e \<Rightarrow> None
    | Inr res \<Rightarrow> Some (cost_price (res_book res), sell_price (res_book res)))
     = Some (500, 165099)"
  using example_pence example_price example_spec_price example_ingest
  by (intro conjI)

section \<open>Identifier validation\<close>

lemma length_toUpperCase: "length (toUpperCase s) = length s"
  by (simp add: toUpperCase_def)

lemma isbnChar_iff:
  "isbnChar c \<longleftrightarrow> c \<in> set ''0123456789'' \<or> c = CHR ''X'' \<or> c = CHR ''x''"
  by (auto simp: isbnChar_def)

text \<open>
  Claim C8. An identifier is valid exactly when the digits and the letters X and x in it
  number 10 or 13; nothing else about them is looked at, so no check digit is verified. An
  identifier that is not valid ends \<^verbatim>\<open>ingestBook\<close> at once with the error 400, and the
  table is as it was.
\<close>

theorem isValidISBN_length_only:
  "(isValidISBN s \<longleftrightarrow>
      length (filter (\<lambda>c. c \<in> set ''0123456789'' \<or> c = CHR ''X'' \<or> c = CHR ''x'') s)
        \<in> {10, 13}) \<and>
   (\<not> isValidISBN (req_isbn request) \<longrightarrow>
      ingestBook env db request = (Inl (BookstoreError ''Invalid ISBN format'' 400), db))"
proof -
  have "filter isbnChar s =
        filter (\<lambda>c. c \<in> set ''0123456789'' \<or> c = CHR ''X'' \<or> c = CHR ''x'') s"
    by (rule filter_cong) (simp_all only: isbnChar_iff)
  then have "isValidISBN s \<longleftrightarrow>
      length (filter (\<lambda>c. c \<in> set ''0123456789'' \<or> c = CHR ''X'' \<or> c = CHR ''x'') s)
        \<in> {10, 13}"
    by (simp add: isValidISBN_def normalizeISBN_def length_toUpperCase)
  moreover have "\<not> isValidISBN (req_isbn request) \<longrightarrow>
      ingestBook env db request = (Inl (BookstoreError ''Invalid ISBN format'' 400), db)"
    by (simp add: ingestBook_def)
  ultimately show ?thesis by blast
qed

theorem isValidISBN_length_only_witness:
  "isValidISBN ''0-306-40615-X'' \<and>
   \<not> isValidISBN (req_isbn (demoRequest\<lparr>req_isbn := ''12345''\<rparr>)) \<and>
   ingestBook demoEnv demoDb (demoRequest\<lparr>req_isbn := ''12345''\<rparr>) =
     (Inl (BookstoreError ''Invalid ISBN format'' 400), demoDb)"
proof -
  have n: "length (filter (\<lambda>c. c \<in> set ''0123456789'' \<or> c = CHR ''X'' \<or> c = CHR ''x'')
             ''0-306-40615-X'') \<in> {10, 13}"
    by simp
  have v: "\<not> isValidISBN (req_isbn (demoRequest\<lparr>req_isbn := ''12345''\<rparr>))"
    by code_simp
  from isValidISBN_length_only [of "''0-306-40615-X''" "demoRequest\<lparr>req_isbn := ''12345''\<rparr>"
      demoEnv demoDb] n v
  show ?thesis by blast
qed

section \<open>Enrichment\<close>

lemma take_prefix_iff: "take (length kw) s = kw \<longleftrightarrow> prefix kw s"
  by (metis prefix_def append_eq_conv_conj take_is_prefix)

lemma includesStr_sublist: "includesStr s kw \<longleftrightarrow> sublist kw s"
  by (induction s) (simp_all add: sublist_Cons_right take_prefix_iff del: take_Suc_Cons)

lemma distinct_shockKeywords: "distinct shockKeywords"
  by (simp add: shockKeywords_def)

lemma set_shockKeywords:
  "set shockKeywords =
     {''shocking'', ''disturbing'', ''graphic'', ''controversial'',
      ''provocative'', ''unsettling'', ''dark'', ''twisted''}"
  by (simp add: shockKeywords_def)

lemma shock_count:
  "length (filter (includesStr s) shockKeywords) = card {kw \<in> set shockKeywords. sublist kw s}"
proof -
  have "{kw \<in> set shockKeywords. sublist kw s} = {kw. includesStr s kw} \<inter> set shockKeywords"
    by (auto simp: includesStr_sublist)
  then show ?thesis
    using distinct_length_filter [OF distinct_shockKeywords, of "includesStr s"] by simp
qed

text \<open>
  Claim C5. The shock score is 5 plus the number of the eight keywords that occur in the
  description once it is put in lower case, kept between 1 and 10; it is 5 when there is no
  description.
\<close>

theorem calculateShockFactor_counts_keywords:
  "calculateShockFactor None reviews = 5 \<and>
   calculateShockFactor (Some d) reviews =
     max 1 (min 10 (5 + int (card
       {kw \<in> {''shocking'', ''disturbing'', ''graphic'', ''controversial'',
               ''provocative'', ''unsettling'', ''dark'', ''twisted''}.
          sublist kw (toLowerCase d)})))"
proof -
  have e: "{kw \<in> set shockKeywords. sublist kw (toLowerCase [])} = {}"
    by (auto simp: toLowerCase_def shockKeywords_def)
  show ?thesis
    unfolding set_shockKeywords [symmetric]
    by (cases "d = []") (simp_all add: calculateShockFactor_def shock_count Let_def e)
qed

theorem calculateShockFactor_counts_keywords_witness:
  "calculateShockFactor (Some ''A dark and TWISTED tale'') None = 7 \<and>
   card {kw \<in> {''shocking'', ''disturbing'', ''graphic'', ''controversial'',
                ''provocative'', ''unsettling'', ''dark'', ''twisted''}.
           sublist kw (toLowerCase ''A dark and TWISTED tale'')} = 2"
proof -
  have v: "calculateShockFactor (Some ''A dark and TWISTED tale'') None = 7"
    by code_simp
  from calculateShockFactor_counts_keywords [of None "''A dark and TWISTED tale''"] v
  show ?thesis by linarith
qed

section \<open>The record store\<close>

lemma find_append_new: "find P xs = None \<Longrightarrow> P y \<Longrightarrow> find P (xs @ [y]) = Some y"
  by (induction xs) (auto split: if_splits)

lemma toRow_fields:
  "book_id (toRow b) = book_id b" "in_stock (toRow b) = in_stock b"
  "status (toRow b) = status b" "created_at (toRow b) = created_at b"
  "updated_at (toRow b) = updated_at b" "isbn (toRow b) = isbn b"
  by (simp_all add: toRow_def)

lemma createBook_ok:
  assumes "p_isbn bookData = Value i" "p_title bookData = Value t" "p_author bookData = Value a"
    "p_cost_price bookData = Value c" "p_sell_price bookData = Value s"
    "getBook db newId = None" "getBookByISBN db i = None"
  shows "\<exists>book. createBook db newId now bookData = (Inr book, db @ [toRow book]) \<and>
           book_id book = newId \<and> cover_url book = propOption (p_cover_url bookData)"
  using assms by (simp add: createBook_def Let_def)

lemma createBook_Inr:
  assumes "createBook db newId now bookData = (Inr book, db')"
  shows "db' = db @ [toRow book] \<and> book_id book = newId \<and> getBook db newId = None \<and>
         in_stock book \<and>
         status book = (case p_status bookData of Undefined \<Rightarrow> draft | Null \<Rightarrow> draft | Value st \<Rightarrow> st) \<and>
         created_at book = now \<and> updated_at book = now"
  using assms
  by (auto simp: createBook_def Let_def propOr_def split: Prop.splits if_splits)

text \<open>
  Claim C10. A book that \<^verbatim>\<open>createBook\<close> stores is in stock whatever stock flag the caller
  gave, has the status the caller gave or else draft, and has equal creation and update
  timestamps; this holds of the object returned and of the row written. The insert succeeds
  whenever the five required properties are given and the identifiers are new.
\<close>

theorem createBook_defaults:
  "(createBook db newId now bookData = (Inr book, db') \<longrightarrow>
      in_stock book \<and>
      status book = (case p_status bookData of Undefined \<Rightarrow> draft | Null \<Rightarrow> draft | Value st \<Rightarrow> st) \<and>
      created_at book = updated_at book \<and>
      db' = db @ [toRow book] \<and>
      getBook db' newId = Some (toRow book) \<and>
      in_stock (toRow book) \<and> status (toRow book) = status book \<and>
      created_at (toRow book) = updated_at (toRow book)) \<and>
   (p_isbn bookData = Value i \<and> p_title bookData = Value t \<and> p_author bookData = Value a \<and>
    p_cost_price bookData = Value c \<and> p_sell_price bookData = Value s \<and>
    getBook db newId = None \<and> getBookByISBN db i = None \<longrightarrow>
      (\<exists>b. createBook db newId now bookData = (Inr b, db @ [toRow b])))"
proof (intro conjI impI)
  assume a: "createBook db newId now bookData = (Inr book, db')"
  note r = createBook_Inr [OF a]
  show "in_stock book"
    "status book = (case p_status bookData of Undefined \<Rightarrow> draft | Null \<Rightarrow> draft | Value st \<Rightarrow> st)"
    "created_at book = updated_at book" "db' = db @ [toRow book]"
    using r by simp_all
  show "getBook db' newId = Some (toRow book)"
    using r by (simp add: getBook_def find_append_new toRow_fields)
  show "in_stock (toRow book)" "status (toRow book) = status book"
    "created_at (toRow book) = updated_at (toRow book)"
    using r by (simp_all add: toRow_fields)
next
  assume "p_isbn bookData = Value i \<and> p_title bookData = Value t \<and> p_author bookData = Value a \<and>
    p_cost_price bookData = Value c \<and> p_sell_price bookData = Value s \<and>
    getBook db newId = None \<and> getBookByISBN db i = None"
  then show "\<exists>b. createBook db newId now bookData = (Inr b, db @ [toRow b])"
    using createBook_ok [of bookData i t a c s db newId now] by blast
qed

theorem createBook_defaults_witness:
  "\<exists>b. createBook demoDb ''book-9'' ''2025-10-22T08:00:00.000Z''
          (emptyPartial\<lparr> p_isbn := Value ''0306406152'', p_title := Value ''T'',
             p_author := Value ''A'', p_cost_price := Value 100, p_sell_price := Value 299,
             p_in_stock := Value False \<rparr>)
        = (Inr b, demoDb @ [toRow b]) \<and>
       in_stock b \<and> status b = draft \<and> created_at b = updated_at b \<and>
       getBook (demoDb @ [toRow b]) ''book-9'' = Some (toRow b) \<and> in_stock (toRow b)"
proof -
  let ?bd = "emptyPartial\<lparr> p_isbn := Value ''0306406152'', p_title := Value ''T'',
             p_author := Value ''A'', p_cost_price := Value 100, p_sell_price := Value 299,
             p_in_stock := Value False \<rparr>"
  have f: "getBook demoDb ''book-9'' = None" "getBookByISBN demoDb ''0306406152'' = None"
    by code_simp+
  have p: "p_isbn ?bd = Value ''0306406152''" "p_title ?bd = Value ''T''"
    "p_author ?bd = Value ''A''" "p_cost_price ?bd = Value 100" "p_sell_price ?bd = Value 299"
    "p_status ?bd = Undefined"
    by (simp_all add: emptyPartial_def)
  from createBook_defaults [of demoDb "''book-9''" "''2025-10-22T08:00:00.000Z''" ?bd
      undefined undefined "''0306406152''" "''T''" "''A''" 100 299] f p
  obtain b where b: "createBook demoDb ''book-9'' ''2025-10-22T08:00:00.000Z'' ?bd
      = (Inr b, demoDb @ [toRow b])"
    by blast
  from createBook_defaults [of demoDb "''book-9''" "''2025-10-22T08:00:00.000Z''" ?bd
      b "demoDb @ [toRow b]"] b p
  show ?thesis by auto
qed

section \<open>Metadata\<close>

text \<open>
  Claim C4. Each lookup turns every outcome but a found entry into an absent result; the
  result of \<^verbatim>\<open>fetchMetadata\<close> is made of both lookups, whatever the other one met; it is
  an error exactly when both are absent, and the error is a \<^verbatim>\<open>BookstoreError\<close> with
  status 404; otherwise it holds the two results as they are. With both absent,
  \<^verbatim>\<open>ingestBook\<close> on a valid request for a new identifier fails with status 404 and
  leaves the table as it was.
\<close>

theorem fetchMetadata_not_found_iff:
  "(fetchOpenLibrary env k = None \<longleftrightarrow> (\<forall>b. open_library_api env k \<noteq> Entry b)) \<and>
   (fetchGoogleBooks env k = None \<longleftrightarrow> (\<forall>b. google_books_api env k \<noteq> Entry b)) \<and>
   ((\<exists>e. fetchMetadata env i = Inl e) \<longleftrightarrow>
      fetchOpenLibrary env (normalizeISBN i) = None \<and>
      fetchGoogleBooks env (normalizeISBN i) = None) \<and>
   (fetchMetadata env i = Inl e \<longrightarrow> (\<exists>msg. e = BookstoreError msg 404)) \<and>
   (fetchMetadata env i = Inr m \<longrightarrow>
      open_library m = fetchOpenLibrary env (normalizeISBN i) \<and>
      google_books m = fetchGoogleBooks env (normalizeISBN i)) \<and>
   (isValidISBN (req_isbn request) \<and> 0 < req_cost_price request \<and>
    getBookByISBN db (req_isbn request) = None \<and>
    fetchOpenLibrary env (normalizeISBN (req_isbn request)) = None \<and>
    fetchGoogleBooks env (normalizeISBN (req_isbn request)) = None \<longrightarrow>
      (\<exists>msg. ingestBook env db request = (Inl (BookstoreError msg 404), db)))"
proof -
  have a: "(fetchOpenLibrary env k = None \<longleftrightarrow> (\<forall>b. open_library_api env k \<noteq> Entry b)) \<and>
        (fetchGoogleBooks env k = None \<longleftrightarrow> (\<forall>b. google_books_api env k \<noteq> Entry b))"
    by (auto simp: fetchOpenLibrary_def fetchGoogleBooks_def split: Lookup.splits)
  have b: "(\<exists>e. fetchMetadata env i = Inl e) \<longleftrightarrow>
      fetchOpenLibrary env (normalizeISBN i) = None \<and>
      fetchGoogleBooks env (normalizeISBN i) = None"
    by (auto simp: fetchMetadata_def Let_def split: if_splits)
  have c: "fetchMetadata env i = Inl e \<longrightarrow> (\<exists>msg. e = BookstoreError msg 404)"
    by (auto simp: fetchMetadata_def Let_def split: if_splits)
  have d: "fetchMetadata env i = Inr m \<longrightarrow>
      open_library m = fetchOpenLibrary env (normalizeISBN i) \<and>
      google_books m = fetchGoogleBooks env (normalizeISBN i)"
    by (auto simp: fetchMetadata_def Let_def split: if_splits)
  have e: "isValidISBN (req_isbn request) \<and> 0 < req_cost_price request \<and>
    getBookByISBN db (req_isbn request) = None \<and>
    fetchOpenLibrary env (normalizeISBN (req_isbn request)) = None \<and>
    fetchGoogleBooks env (normalizeISBN (req_isbn request)) = None \<longrightarrow>
      (\<exists>msg. ingestBook env db request = (Inl (BookstoreError msg 404), db))"
    by (simp add: ingestBook_def fetchMetadata_def Let_def)
  from a b c d e show ?thesis by blast
qed

theorem fetchMetadata_not_found_iff_witness:
  "open_library_api demoEnv ''0306406152'' = NoEntry \<and>
   google_books_api demoEnv ''0306406152'' = Threw \<and>
   (\<exists>e. fetchMetadata demoEnv ''0-306-40615-2'' = Inl e) \<and>
   (\<exists>msg. ingestBook demoEnv demoDb (demoRequest\<lparr>req_isbn := ''0-306-40615-2''\<rparr>)
            = (Inl (BookstoreError msg 404), demoDb)) \<and>
   open_library \<lparr> open_library = Some demoOpenLibrary, google_books = Some demoGoogleBooks \<rparr>
     = fetchOpenLibrary demoEnv (normalizeISBN ''978-0-375-75785-3'')"
proof -
  let ?r = "demoRequest\<lparr>req_isbn := ''0-306-40615-2''\<rparr>"
  let ?m = "\<lparr> open_library = Some demoOpenLibrary, google_books = Some demoGoogleBooks \<rparr>"
  have n: "normalizeISBN ''0-306-40615-2'' = ''0306406152''"
    "normalizeISBN (req_isbn ?r) = ''0306406152''"
    by code_simp+
  have o: "open_library_api demoEnv ''0306406152'' = NoEntry"
    "google_books_api demoEnv ''0306406152'' = Threw"
    by (simp_all add: demoEnv_def)
  have h: "isValidISBN (req_isbn ?r)" "0 < req_cost_price ?r"
    "getBookByISBN demoDb (req_isbn ?r) = None"
    by code_simp+
  have g: "fetchMetadata demoEnv ''978-0-375-75785-3'' = Inr ?m"
    by code_simp
  note t = fetchMetadata_not_found_iff
    [of demoEnv "''0306406152''" "''0-306-40615-2''" "Error []" ?m ?r demoDb]
  from t o n have absent: "fetchOpenLibrary demoEnv ''0306406152'' = None"
    "fetchGoogleBooks demoEnv ''0306406152'' = None"
    by simp_all
  from t absent n have 1: "\<exists>e. fetchMetadata demoEnv ''0-306-40615-2'' = Inl e"
    by simp
  from t absent n h
  have 2: "\<exists>msg. ingestBook demoEnv demoDb ?r = (Inl (BookstoreError msg 404), demoDb)"
    by simp
  from fetchMetadata_not_found_iff
    [of demoEnv "''0306406152''" "''978-0-375-75785-3''" "Error []" ?m ?r demoDb] g
  have 3: "open_library ?m = fetchOpenLibrary demoEnv (normalizeISBN ''978-0-375-75785-3'')"
    by blast
  from o 1 2 3 show ?thesis by blast
qed



section \<open>Updates\<close>

lemma collectFields_names:
  "(f, v) \<in> set (collectFields fs updates) \<Longrightarrow> f \<in> set fs"
  by (induction fs) (auto split: option.splits)

lemma collectFields_set:
  "(f, v) \<in> set (collectFields fs updates) \<longleftrightarrow> f \<in> set fs \<and> getField updates f = Some v"
  by (induction fs) (auto split: option.splits)

lemma collectFields_empty:
  "collectFields fs updates = [] \<longleftrightarrow> (\<forall>f \<in> set fs. getField updates f = None)"
  by (induction fs) (auto split: option.splits)

lemma assign_append: "assign (xs @ ys) row = assign ys (assign xs row)"
  by (induction xs arbitrary: row) auto

lemma setColumn_frame:
  assumes "f \<in> set allowedFields \<or> f = ''updated_at''"
  shows "book_id (setColumn f v row) = book_id row \<and> isbn (setColumn f v row) = isbn row \<and>
         condition (setColumn f v row) = condition row \<and>
         cost_price (setColumn f v row) = cost_price row \<and>
         created_at (setColumn f v row) = created_at row \<and>
         sold_at (setColumn f v row) = sold_at row"
  using assms by (auto simp: allowedFields_def setColumn_def split: FieldValue.splits)

lemma assign_frame:
  assumes "\<forall>(f, v) \<in> set xs. f \<in> set allowedFields \<or> f = ''updated_at''"
  shows "book_id (assign xs row) = book_id row \<and> isbn (assign xs row) = isbn row \<and>
         condition (assign xs row) = condition row \<and>
         cost_price (assign xs row) = cost_price row \<and>
         created_at (assign xs row) = created_at row \<and>
         sold_at (assign xs row) = sold_at row"
  using assms
proof (induction xs arbitrary: row)
  case Nil
  then show ?case by simp
next
  case (Cons x xs)
  obtain f v where x: "x = (f, v)" by (cases x)
  with Cons.prems have "f \<in> set allowedFields \<or> f = ''updated_at''" by simp
  from setColumn_frame [OF this, of v row] Cons.IH [of "setColumn f v row"] Cons.prems x
  show ?case by simp
qed

lemma getBook_map:
  assumes "getBook db bookId = Some existing" "\<And>row. book_id (g row) = book_id row"
  shows "getBook (map (\<lambda>row. if book_id row = bookId then g row else row) db) bookId
         = Some (g existing)"
  using assms by (induction db) (auto simp: getBook_def split: if_splits)

lemma getBook_id: "getBook db bookId = Some b \<Longrightarrow> book_id b = bookId"
  by (induction db) (auto simp: getBook_def split: if_splits)

text \<open>The statement fails exactly when the payload has null for an allowed NOT NULL column.\<close>

lemma nullsNotNull_iff:
  "nullsNotNull (collectFields fs updates @ [(''updated_at'', VString now)]) \<longleftrightarrow>
     (\<exists>f \<in> set fs. f \<in> set notNullColumns \<and> getField updates f = Some VNull)"
  by (auto simp: nullsNotNull_def list_ex_iff collectFields_set)

text \<open>What an update makes of the book, when the payload defines an allowed field.\<close>

lemma updateBook_some:
  assumes "getBook db bookId = Some existing" "collectFields allowedFields updates \<noteq> []"
    "\<not> nullsNotNull (collectFields allowedFields updates @ [(''updated_at'', VString now)])"
  shows "updateBook db now bookId updates =
           (Inr (Some (assign (collectFields allowedFields updates
                                 @ [(''updated_at'', VString now)]) existing)),
            map (\<lambda>row. if book_id row = bookId
                      then assign (collectFields allowedFields updates
                                     @ [(''updated_at'', VString now)]) row
                      else row) db)"
proof -
  have fr: "\<forall>(f, v) \<in> set (collectFields allowedFields updates @ [(''updated_at'', VString now)]).
              f \<in> set allowedFields \<or> f = ''updated_at''"
    by (auto dest: collectFields_names)
  have "\<And>row. book_id (assign (collectFields allowedFields updates
                  @ [(''updated_at'', VString now)]) row) = book_id row"
    using assign_frame [OF fr] by simp
  from getBook_map [OF assms(1), of "assign (collectFields allowedFields updates
                  @ [(''updated_at'', VString now)])", OF this] assms
  show ?thesis by (simp add: updateBook_def Let_def)
qed

lemma updateBook_none:
  assumes "getBook db bookId = Some existing" "collectFields allowedFields updates = []"
  shows "updateBook db now bookId updates = (Inr (Some existing), db)"
  using assms by (simp add: updateBook_def Let_def)

lemma updateBook_fails:
  assumes "getBook db bookId = Some existing"
    "nullsNotNull (collectFields allowedFields updates @ [(''updated_at'', VString now)])"
  shows "updateBook db now bookId updates
           = (Inl (Error ''D1_ERROR: NOT NULL constraint failed''), db)"
proof -
  from assms(2) obtain f where "f \<in> set allowedFields" "getField updates f = Some VNull"
    unfolding nullsNotNull_iff by blast
  then have "collectFields allowedFields updates \<noteq> []"
    unfolding collectFields_empty by force
  with assms show ?thesis by (simp add: updateBook_def Let_def)
qed

lemma updated_at_assign:
  "updated_at (assign (xs @ [(''updated_at'', VString now)]) row) = now"
  by (simp add: assign_append setColumn_def)

text \<open>
  Claim C7. For a book that exists and for every payload (each property of which may be
  undefined, null or a value), \<^verbatim>\<open>updateBook\<close> never returns \<^verbatim>\<open>null\<close>. It throws exactly
  when the payload has null for an allowed column that the schema declares NOT NULL, and then
  the table is as it was. Otherwise it returns the book as the table then holds it, with the
  id, the isbn, the condition, the cost price, the creation time and the sale time it had,
  whatever the payload says about them, and with every other row in place; the update time
  is the current time when the payload defines an allowed field (null included), and when it
  defines none the result is the current record and the table is untouched.
\<close>

theorem updateBook_frame:
  "getBook db bookId = Some existing \<Longrightarrow>
   updateBook db now bookId updates = (res, db') \<Longrightarrow>
   res \<noteq> Inr None \<and>
   ((\<exists>e. res = Inl e) \<longleftrightarrow>
      (\<exists>f \<in> set allowedFields. f \<in> set notNullColumns \<and> getField updates f = Some VNull)) \<and>
   (\<forall>e. res = Inl e \<longrightarrow> db' = db) \<and>
   (\<forall>b. res = Inr (Some b) \<longrightarrow>
      getBook db' bookId = Some b \<and>
      book_id b = book_id existing \<and> isbn b = isbn existing \<and>
      condition b = condition existing \<and> cost_price b = cost_price existing \<and>
      created_at b = created_at existing \<and> sold_at b = sold_at existing \<and>
      length db' = length db \<and>
      (\<forall>row \<in> set db. book_id row \<noteq> bookId \<longrightarrow> row \<in> set db') \<and>
      ((\<exists>f \<in> set allowedFields. getField updates f \<noteq> None) \<longrightarrow> updated_at b = now)) \<and>
   ((\<forall>f \<in> set allowedFields. getField updates f = None) \<longrightarrow>
      res = Inr (Some existing) \<and> db' = db)"
proof -
  assume g: "getBook db bookId = Some existing"
  assume r: "updateBook db now bookId updates = (res, db')"
  let ?xs = "collectFields allowedFields updates @ [(''updated_at'', VString now)]"
  let ?db' = "map (\<lambda>row. if book_id row = bookId then assign ?xs row else row) db"
  let ?null = "\<exists>f \<in> set allowedFields. f \<in> set notNullColumns \<and> getField updates f = Some VNull"
  consider (none) "collectFields allowedFields updates = []"
    | (fails) "collectFields allowedFields updates \<noteq> []" "nullsNotNull ?xs"
    | (some) "collectFields allowedFields updates \<noteq> []" "\<not> nullsNotNull ?xs"
    by blast
  then show ?thesis
  proof cases
    case none
    then have n: "\<forall>f \<in> set allowedFields. getField updates f = None"
      by (simp add: collectFields_empty)
    then have "\<not> ?null" by auto
    moreover from updateBook_none [OF g none, of now] r
    have "res = Inr (Some existing)" "db' = db" by simp_all
    ultimately show ?thesis using g n by auto
  next
    case fails
    then have "?null" by (simp add: nullsNotNull_iff)
    moreover from this have "\<not> (\<forall>f \<in> set allowedFields. getField updates f = None)"
      by auto
    moreover from updateBook_fails [OF g fails(2)] r
    have "res = Inl (Error ''D1_ERROR: NOT NULL constraint failed'')" "db' = db" by simp_all
    ultimately show ?thesis by auto
  next
    case some
    then have nn: "\<not> ?null" by (simp add: nullsNotNull_iff)
    have fr: "\<forall>(f, v) \<in> set ?xs. f \<in> set allowedFields \<or> f = ''updated_at''"
      by (auto dest: collectFields_names)
    have id: "\<And>row. book_id (assign ?xs row) = book_id row"
      using assign_frame [OF fr] by simp
    from updateBook_some [OF g some] r
    have u: "res = Inr (Some (assign ?xs existing))" "db' = ?db'" by simp_all
    have s: "getBook ?db' bookId = Some (assign ?xs existing)"
      by (rule getBook_map [OF g id])
    have o: "\<forall>row \<in> set db. book_id row \<noteq> bookId \<longrightarrow> row \<in> set ?db'"
      by (auto simp: image_iff)
    from some(1) have n: "\<not> (\<forall>f \<in> set allowedFields. getField updates f = None)"
      by (simp add: collectFields_empty)
    have l: "length ?db' = length db" by simp
    note f = assign_frame [OF fr, of existing]
    note t = updated_at_assign [of "collectFields allowedFields updates" now existing]
    show ?thesis
      unfolding u using s o n nn l f t by (intro conjI) (simp_all only: , auto)
  qed
qed

lemma example_update_null:
  "updateBook [demoBook\<lparr>description := Some ''A novel''\<rparr>] ''2025-10-23T12:00:00.000Z''
     ''book-1'' (emptyPartial\<lparr> p_description := Null \<rparr>)
   = (Inr (Some (demoBook\<lparr>updated_at := ''2025-10-23T12:00:00.000Z''\<rparr>)),
      [demoBook\<lparr>updated_at := ''2025-10-23T12:00:00.000Z''\<rparr>])"
  by code_simp

theorem updateBook_frame_witness:
  "getBook demoDb ''book-1'' = Some demoBook \<and>
   (\<exists>b. fst (updateBook demoDb ''2025-10-23T12:00:00.000Z'' ''book-1''
               (emptyPartial\<lparr> p_id := Value ''book-0'', p_isbn := Value ''0306406152'',
                  p_title := Value ''Catcher'', p_description := Null,
                  p_condition := Value like_new, p_cost_price := Value 1,
                  p_created_at := Value ''1999'' \<rparr>)) = Inr (Some b) \<and>
      book_id b = ''book-1'' \<and> isbn b = ''9780316769174'' \<and> condition b = good \<and>
      cost_price b = 350 \<and> created_at b = ''2025-10-20T09:00:00.000Z'' \<and>
      updated_at b = ''2025-10-23T12:00:00.000Z'') \<and>
   updateBook demoDb ''2025-10-23T12:00:00.000Z'' ''book-1''
     (emptyPartial\<lparr> p_id := Value ''book-0'', p_cost_price := Null \<rparr>)
     = (Inr (Some demoBook), demoDb) \<and>
   (\<exists>e. updateBook demoDb ''2025-10-23T12:00:00.000Z'' ''book-1''
           (emptyPartial\<lparr> p_title := Null \<rparr>) = (Inl e, demoDb))"
proof -
  let ?now = "''2025-10-23T12:00:00.000Z''"
  let ?u = "emptyPartial\<lparr> p_id := Value ''book-0'', p_isbn := Value ''0306406152'',
                  p_title := Value ''Catcher'', p_description := Null,
                  p_condition := Value like_new, p_cost_price := Value 1,
                  p_created_at := Value ''1999'' \<rparr>"
  let ?n = "emptyPartial\<lparr> p_id := Value ''book-0'', p_cost_price := Null \<rparr>"
  let ?t = "emptyPartial\<lparr> p_title := Null \<rparr>"
  have g: "getBook demoDb ''book-1'' = Some demoBook"
    by code_simp
  have some: "\<exists>f \<in> set allowedFields. getField ?u f \<noteq> None"
    by (simp add: allowedFields_def getField_def emptyPartial_def propValue_def)
  have ok: "\<not> (\<exists>f \<in> set allowedFields. f \<in> set notNullColumns \<and> getField ?u f = Some VNull)"
    by (simp add: allowedFields_def notNullColumns_def getField_def emptyPartial_def
        propValue_def)
  have none: "\<forall>f \<in> set allowedFields. getField ?n f = None"
    by (simp add: allowedFields_def getField_def emptyPartial_def propValue_def)
  have null: "\<exists>f \<in> set allowedFields. f \<in> set notNullColumns \<and> getField ?t f = Some VNull"
    by (simp add: allowedFields_def notNullColumns_def getField_def emptyPartial_def
        propValue_def)
  note tu = updateBook_frame [OF g, of ?now ?u "fst (updateBook demoDb ?now ''book-1'' ?u)"
      "snd (updateBook demoDb ?now ''book-1'' ?u)", OF prod.collapse [symmetric]]
  from tu ok obtain b where b: "fst (updateBook demoDb ?now ''book-1'' ?u) = Inr (Some b)"
    by (cases "fst (updateBook demoDb ?now ''book-1'' ?u)") (auto split: option.splits)
  from tu b some
  have 1: "\<exists>b. fst (updateBook demoDb ?now ''book-1'' ?u) = Inr (Some b) \<and>
      book_id b = ''book-1'' \<and> isbn b = ''9780316769174'' \<and> condition b = good \<and>
      cost_price b = 350 \<and> created_at b = ''2025-10-20T09:00:00.000Z'' \<and>
      updated_at b = ''2025-10-23T12:00:00.000Z''"
    by (auto simp: demoBook_def)
  note tn = updateBook_frame [OF g, of ?now ?n "fst (updateBook demoDb ?now ''book-1'' ?n)"
      "snd (updateBook demoDb ?now ''book-1'' ?n)", OF prod.collapse [symmetric]]
  from tn none
  have "fst (updateBook demoDb ?now ''book-1'' ?n) = Inr (Some demoBook) \<and>
        snd (updateBook demoDb ?now ''book-1'' ?n) = demoDb"
    by blast
  then have 2: "updateBook demoDb ?now ''book-1'' ?n = (Inr (Some demoBook), demoDb)"
    by (simp add: prod_eq_iff)
  note tt = updateBook_frame [OF g, of ?now ?t "fst (updateBook demoDb ?now ''book-1'' ?t)"
      "snd (updateBook demoDb ?now ''book-1'' ?t)", OF prod.collapse [symmetric]]
  from tt null obtain e where
    "fst (updateBook demoDb ?now ''book-1'' ?t) = Inl e"
    "snd (updateBook demoDb ?now ''book-1'' ?t) = demoDb"
    by blast
  then have 3: "\<exists>e. updateBook demoDb ?now ''book-1'' ?t = (Inl e, demoDb)"
    by (simp add: prod_eq_iff)
  from g 1 2 3 show ?thesis by blast
qed

section \<open>Asset transfer\<close>

lemma cover_url_truthy: "m_cover_url (mergeMetadata ext) = Some url \<Longrightarrow> truthyString url"
  by (auto simp: mergeMetadata_def Let_def extractCoverUrl_def truthy_def
      split: if_splits option.splits)

lemma fetchUrl_relative: "fetchUrl env (CHR ''/'' # rest) = None"
  by (simp add: fetchUrl_def)

text \<open>The transfer goes through exactly when all four steps do, and then gives the new path.\<close>

lemma uploadBookCover_transferred:
  assumes "fetchUrl env url = Some r" "resp_ok r" "resp_body_read r"
    "assets_put env (''covers/'' @ bookId @
       getFileExtension (jsOrDefault truthyString (resp_content_type r) ''image/jpeg''))"
  shows "uploadBookCover env bookId url =
           ''/assets/covers/'' @ bookId @
             getFileExtension (jsOrDefault truthyString (resp_content_type r) ''image/jpeg'')"
    and "uploadBookCover env bookId url \<noteq> url"
proof -
  show 1: "uploadBookCover env bookId url =
           ''/assets/covers/'' @ bookId @
             getFileExtension (jsOrDefault truthyString (resp_content_type r) ''image/jpeg'')"
    using assms by (simp add: uploadBookCover_def getPublicUrl_def Let_def)
  show "uploadBookCover env bookId url \<noteq> url"
  proof
    assume "uploadBookCover env bookId url = url"
    with 1 obtain rest where "url = CHR ''/'' # rest" by auto
    with assms(1) show False by (simp add: fetchUrl_relative)
  qed
qed

lemma uploadBookCover_failed:
  assumes "\<not> (\<exists>r. fetchUrl env url = Some r \<and> resp_ok r \<and> resp_body_read r \<and>
             assets_put env (''covers/'' @ bookId @
               getFileExtension (jsOrDefault truthyString (resp_content_type r) ''image/jpeg'')))"
  shows "uploadBookCover env bookId url = url"
  using assms by (auto simp: uploadBookCover_def Let_def split: option.splits)

text \<open>The rewrite of the cover after a transfer cannot fail.\<close>

lemma collect_cover_url:
  "collectFields allowedFields (emptyPartial\<lparr>p_cover_url := Value u\<rparr>)
     = [(''cover_url'', VString u)]"
  by (simp add: allowedFields_def getField_def emptyPartial_def propValue_def)

lemma uploadCoverStep_result:
  assumes g: "getBook db (book_id book) = Some row"
    and t: "truthyString url" "truthyString (book_id book)"
    and c: "cover_url book = Some url" "cover_url row = Some url"
  shows "\<exists>db' row'.
           uploadCoverStep env db book (Some url)
             = (book\<lparr>cover_url := Some (uploadBookCover env (book_id book) url)\<rparr>, db', []) \<and>
           getBook db' (book_id book) = Some row' \<and>
           cover_url row' = Some (uploadBookCover env (book_id book) url)"
proof (cases "uploadBookCover env (book_id book) url = url")
  case True
  from c(1) have "book\<lparr>cover_url := Some url\<rparr> = book" by (cases book) simp
  with True g t c show ?thesis by (simp add: uploadCoverStep_def Let_def)
next
  case False
  let ?u = "uploadBookCover env (book_id book) url"
  let ?xs = "[(''cover_url'', VString ?u), (''updated_at'', VString (clock_update env))]"
  let ?db' = "map (\<lambda>r. if book_id r = book_id book then assign ?xs r else r) db"
  have n: "\<not> nullsNotNull ?xs"
    by (simp add: nullsNotNull_def)
  have "updateBook db (clock_update env) (book_id book) (emptyPartial\<lparr>p_cover_url := Value ?u\<rparr>)
          = (Inr (Some (assign ?xs row)), ?db')"
    using updateBook_some [OF g, of "emptyPartial\<lparr>p_cover_url := Value ?u\<rparr>" "clock_update env"] n
    by (simp add: collect_cover_url)
  with False t
  have s: "uploadCoverStep env db book (Some url) = (book\<lparr>cover_url := Some ?u\<rparr>, ?db', [])"
    by (simp add: uploadCoverStep_def Let_def)
  have "\<And>r. book_id (assign ?xs r) = book_id r"
    by (simp add: setColumn_def)
  from getBook_map [OF g, of "assign ?xs", OF this]
  have "getBook ?db' (book_id book) = Some (assign ?xs row)" .
  moreover have "cover_url (assign ?xs row) = Some ?u"
    by (simp add: setColumn_def)
  ultimately show ?thesis using s by blast
qed

text \<open>
  Claim C6. \<^verbatim>\<open>uploadBookCover\<close> always returns a URL. When the download throws, when
  the response is not ok, when the body cannot be read and when the store refuses the
  write, it returns the URL it was given. When all four steps go through it returns the
  address under \<^verbatim>\<open>/assets/covers/\<close>, which is not the URL it was given. So its result is
  the URL it was given exactly when the transfer fails. \<^verbatim>\<open>ingestBook\<close>, on a request that
  passes validation for a new identifier with metadata that has a cover, succeeds either
  way, without a soft error, and the cover of the book it returns and of the row it leaves
  in the table is the result of \<^verbatim>\<open>uploadBookCover\<close>: the external URL when the transfer
  fails, the new address when it goes through.
\<close>

theorem uploadBookCover_falls_back:
  "(fetchUrl env url = None \<longrightarrow> uploadBookCover env bookId url = url) \<and>
   (fetch_image env url = None \<longrightarrow> uploadBookCover env bookId url = url) \<and>
   (\<forall>r. fetchUrl env url = Some r \<and> \<not> resp_ok r \<longrightarrow>
        uploadBookCover env bookId url = url) \<and>
   (\<forall>r. fetchUrl env url = Some r \<and> \<not> resp_body_read r \<longrightarrow>
        uploadBookCover env bookId url = url) \<and>
   (\<forall>r. fetchUrl env url = Some r \<and>
        \<not> assets_put env (''covers/'' @ bookId @
            getFileExtension (jsOrDefault truthyString (resp_content_type r) ''image/jpeg'')) \<longrightarrow>
        uploadBookCover env bookId url = url) \<and>
   (\<forall>r. fetchUrl env url = Some r \<and> resp_ok r \<and> resp_body_read r \<and>
        assets_put env (''covers/'' @ bookId @
            getFileExtension (jsOrDefault truthyString (resp_content_type r) ''image/jpeg'')) \<longrightarrow>
        uploadBookCover env bookId url =
          ''/assets/covers/'' @ bookId @
            getFileExtension (jsOrDefault truthyString (resp_content_type r) ''image/jpeg'') \<and>
        uploadBookCover env bookId url \<noteq> url) \<and>
   (uploadBookCover env bookId url = url \<longleftrightarrow>
      \<not> (\<exists>r. fetchUrl env url = Some r \<and> resp_ok r \<and> resp_body_read r \<and>
             assets_put env (''covers/'' @ bookId @
               getFileExtension
                 (jsOrDefault truthyString (resp_content_type r) ''image/jpeg'')))) \<and>
   (isValidISBN (req_isbn request) \<and> 0 < req_cost_price request \<and>
    getBookByISBN db (req_isbn request) = None \<and>
    fetchMetadata env (req_isbn request) = Inr ext \<and>
    getBook db (random_uuid env) = None \<and> random_uuid env \<noteq> [] \<and>
    m_cover_url (mergeMetadata ext) = Some cover \<longrightarrow>
    (\<exists>res db' row. ingestBook env db request = (Inr res, db') \<and> res_success res \<and>
       res_book_id res = random_uuid env \<and> res_errors res = None \<and>
       cover_url (res_book res) = Some (uploadBookCover env (random_uuid env) cover) \<and>
       getBook db' (random_uuid env) = Some row \<and>
       cover_url row = Some (uploadBookCover env (random_uuid env) cover)))"
proof (intro conjI allI impI)
  show "fetchUrl env url = None \<Longrightarrow> uploadBookCover env bookId url = url"
    by (simp add: uploadBookCover_def)
  show "fetch_image env url = None \<Longrightarrow> uploadBookCover env bookId url = url"
    by (cases url) (simp_all add: uploadBookCover_def fetchUrl_def)
  show "fetchUrl env url = Some r \<and> \<not> resp_ok r \<Longrightarrow>
        uploadBookCover env bookId url = url" for r
    by (simp add: uploadBookCover_def)
  show "fetchUrl env url = Some r \<and> \<not> resp_body_read r \<Longrightarrow>
        uploadBookCover env bookId url = url" for r
    by (simp add: uploadBookCover_def Let_def)
  show "fetchUrl env url = Some r \<and>
        \<not> assets_put env (''covers/'' @ bookId @
            getFileExtension (jsOrDefault truthyString (resp_content_type r) ''image/jpeg'')) \<Longrightarrow>
        uploadBookCover env bookId url = url" for r
    by (simp add: uploadBookCover_def Let_def)
  show "fetchUrl env url = Some r \<and> resp_ok r \<and> resp_body_read r \<and>
        assets_put env (''covers/'' @ bookId @
            getFileExtension (jsOrDefault truthyString (resp_content_type r) ''image/jpeg'')) \<Longrightarrow>
        uploadBookCover env bookId url =
          ''/assets/covers/'' @ bookId @
            getFileExtension (jsOrDefault truthyString (resp_content_type r) ''image/jpeg'')" for r
    using uploadBookCover_transferred(1) [of env url r bookId] by blast
  show "fetchUrl env url = Some r \<and> resp_ok r \<and> resp_body_read r \<and>
        assets_put env (''covers/'' @ bookId @
            getFileExtension (jsOrDefault truthyString (resp_content_type r) ''image/jpeg'')) \<Longrightarrow>
        uploadBookCover env bookId url \<noteq> url" for r
    using uploadBookCover_transferred(2) [of env url r bookId] by blast
  show "uploadBookCover env bookId url = url \<longleftrightarrow>
      \<not> (\<exists>r. fetchUrl env url = Some r \<and> resp_ok r \<and> resp_body_read r \<and>
             assets_put env (''covers/'' @ bookId @
               getFileExtension
                 (jsOrDefault truthyString (resp_content_type r) ''image/jpeg'')))"
    using uploadBookCover_transferred(2) [of env url _ bookId]
      uploadBookCover_failed [of env url bookId]
    by blast
next
  assume h: "isValidISBN (req_isbn request) \<and> 0 < req_cost_price request \<and>
    getBookByISBN db (req_isbn request) = None \<and>
    fetchMetadata env (req_isbn request) = Inr ext \<and>
    getBook db (random_uuid env) = None \<and> random_uuid env \<noteq> [] \<and>
    m_cover_url (mergeMetadata ext) = Some cover"
  define merged where "merged = mergeMetadata ext"
  define bookTitle where
    "bookTitle = jsOrDefault truthyString (custom_title request) (m_title merged)"
  define bookAuthor where
    "bookAuthor = jsOrDefault truthyString (custom_author request) (m_author merged)"
  define enrichment where
    "enrichment = enrichBook bookTitle bookAuthor (m_description merged) None"
  define pence where "pence = poundsToPence (req_cost_price request)"
  define price where
    "price = calculateSuggestedPrice (of_int pence) (conditionName (req_condition request))"
  define bookData where
    "bookData = emptyPartial
       \<lparr> p_isbn := Value (req_isbn request),
         p_title := Value bookTitle,
         p_author := Value bookAuthor,
         p_description := ofOption (m_description merged),
         p_cover_url := ofOption (m_cover_url merged),
         p_condition := Value (req_condition request),
         p_cost_price := Value pence,
         p_sell_price := Value price,
         p_in_stock := Value True,
         p_metadata := Value (m_metadata merged),
         p_vibe_tags := ofOption (vibe_keywords enrichment),
         p_ai_enrichment := Value enrichment,
         p_status := Value pending_review \<rparr>"
  let ?id = "random_uuid env"
  let ?u = "uploadBookCover env ?id cover"
  from h have tc: "truthyString cover"
    using cover_url_truthy by blast
  obtain book where b:
    "createBook db ?id (clock_insert env) bookData = (Inr book, db @ [toRow book])"
    "book_id book = ?id" "cover_url book = propOption (p_cover_url bookData)"
    using createBook_ok [of bookData "req_isbn request" bookTitle bookAuthor pence price db
        ?id "clock_insert env"] h
    by (auto simp: bookData_def)
  have cu: "cover_url book = Some cover"
    using b h by (simp add: bookData_def merged_def propOption_def ofOption_def)
  have cr: "cover_url (toRow book) = Some cover"
    using cu tc by (simp add: toRow_def orNull_def jsOr_def truthy_def)
  have gb: "getBook (db @ [toRow book]) (book_id book) = Some (toRow book)"
    using h b by (simp add: getBook_def find_append_new toRow_fields)
  from h b have ti: "truthyString (book_id book)"
    by (simp add: truthyString_def)
  from uploadCoverStep_result [OF gb tc ti cu cr, of env] b(2)
  obtain db' row' where step:
    "uploadCoverStep env (db @ [toRow book]) book (Some cover)
       = (book\<lparr>cover_url := Some ?u\<rparr>, db', [])"
    "getBook db' ?id = Some row'" "cover_url row' = Some ?u"
    by auto
  have ing: "ingestBook env db request =
      (Inr \<lparr> res_success = True, res_book_id = book_id book,
             res_book = book\<lparr>cover_url := Some ?u\<rparr>,
             res_metadata = ext, res_suggested_price = Some (fl (of_int price / 100)),
             res_errors = None \<rparr>, db')"
    using h b(1,2) step(1)
    unfolding bookData_def price_def pence_def enrichment_def bookAuthor_def bookTitle_def
      merged_def
    by (simp add: ingestBook_def Let_def)
  show "\<exists>res db' row. ingestBook env db request = (Inr res, db') \<and> res_success res \<and>
       res_book_id res = random_uuid env \<and> res_errors res = None \<and>
       cover_url (res_book res) = Some (uploadBookCover env (random_uuid env) cover) \<and>
       getBook db' (random_uuid env) = Some row \<and>
       cover_url row = Some (uploadBookCover env (random_uuid env) cover)"
    using ing b(2) step(2,3) by simp
qed

lemma example_inherited_extension:
  "uploadBookCover
     (demoEnv\<lparr> fetch_image :=
        (\<lambda>u. Some \<lparr> resp_ok = True, resp_content_type = Some ''constructor'',
                     resp_body_read = True \<rparr>) \<rparr>)
     ''book-2'' ''http://books.example/cover.png''
   = ''/assets/covers/book-2function Object() { [native code] }''"
  by code_simp

theorem uploadBookCover_falls_back_witness:
  "fetchUrl demoEnv ''http://books.example/cover.png'' = None \<and>
   uploadBookCover demoEnv ''book-2'' ''http://books.example/cover.png''
     = ''http://books.example/cover.png'' \<and>
   (\<exists>res db'. ingestBook demoEnv demoDb demoRequest = (Inr res, db') \<and> res_success res \<and>
      cover_url (res_book res) = Some ''http://books.example/cover.png'') \<and>
   uploadBookCover demoEnvOnline ''book-2'' ''http://books.example/cover.png''
     = ''/assets/covers/book-2.png'' \<and>
   (\<exists>res db' row. ingestBook demoEnvOnline demoDb demoRequest = (Inr res, db') \<and>
      res_success res \<and> cover_url (res_book res) = Some ''/assets/covers/book-2.png'' \<and>
      getBook db' ''book-2'' = Some row \<and> cover_url row = Some ''/assets/covers/book-2.png'')"
proof -
  let ?u = "''http://books.example/cover.png''"
  let ?ext = "\<lparr> open_library = Some demoOpenLibrary, google_books = Some demoGoogleBooks \<rparr>"
  let ?r = "\<lparr> resp_ok = True, resp_content_type = Some ''image/png'', resp_body_read = True \<rparr>"
  have f: "fetchUrl demoEnv ?u = None" "random_uuid demoEnv = ''book-2''"
    "fetchUrl demoEnvOnline ?u = Some ?r" "random_uuid demoEnvOnline = ''book-2''"
    "assets_put demoEnvOnline (''covers/'' @ ''book-2'' @
       getFileExtension (jsOrDefault truthyString (resp_content_type ?r) ''image/jpeg''))"
    "getFileExtension (jsOrDefault truthyString (resp_content_type ?r) ''image/jpeg'') = ''.png''"
    by code_simp+
  note t = uploadBookCover_falls_back
    [of demoEnv ?u "''book-2''" demoRequest demoDb ?ext ?u]
  from t f(1) have up: "uploadBookCover demoEnv ''book-2'' ?u = ?u"
    by blast
  have h: "isValidISBN (req_isbn demoRequest)" "0 < req_cost_price demoRequest"
    "getBookByISBN demoDb (req_isbn demoRequest) = None"
    "fetchMetadata demoEnv (req_isbn demoRequest) = Inr ?ext"
    "getBook demoDb ''book-2'' = None"
    "m_cover_url (mergeMetadata ?ext) = Some ?u"
    "fetchMetadata demoEnvOnline (req_isbn demoRequest) = Inr ?ext"
    by code_simp+
  from t h f(2)
  have "\<exists>res db' row. ingestBook demoEnv demoDb demoRequest = (Inr res, db') \<and> res_success res \<and>
       res_book_id res = random_uuid demoEnv \<and> res_errors res = None \<and>
       cover_url (res_book res) = Some (uploadBookCover demoEnv (random_uuid demoEnv) ?u) \<and>
       getBook db' (random_uuid demoEnv) = Some row \<and>
       cover_url row = Some (uploadBookCover demoEnv (random_uuid demoEnv) ?u)"
    by simp
  with f(2) up
  have 1: "\<exists>res db'. ingestBook demoEnv demoDb demoRequest = (Inr res, db') \<and> res_success res \<and>
      cover_url (res_book res) = Some ?u"
    by auto
  note s = uploadBookCover_falls_back
    [of demoEnvOnline ?u "''book-2''" demoRequest demoDb ?ext ?u]
  from s f(3,5) have "uploadBookCover demoEnvOnline ''book-2'' ?u =
      ''/assets/covers/'' @ ''book-2'' @
        getFileExtension (jsOrDefault truthyString (resp_content_type ?r) ''image/jpeg'')"
    by simp
  with f(6) have on: "uploadBookCover demoEnvOnline ''book-2'' ?u = ''/assets/covers/book-2.png''"
    by simp
  from s h f(4)
  have "\<exists>res db' row. ingestBook demoEnvOnline demoDb demoRequest = (Inr res, db') \<and>
       res_success res \<and>
       res_book_id res = random_uuid demoEnvOnline \<and> res_errors res = None \<and>
       cover_url (res_book res)
         = Some (uploadBookCover demoEnvOnline (random_uuid demoEnvOnline) ?u) \<and>
       getBook db' (random_uuid demoEnvOnline) = Some row \<and>
       cover_url row = Some (uploadBookCover demoEnvOnline (random_uuid demoEnvOnline) ?u)"
    by simp
  with f(4) on
  have 2: "\<exists>res db' row. ingestBook demoEnvOnline demoDb demoRequest = (Inr res, db') \<and>
      res_success res \<and> cover_url (res_book res) = Some ''/assets/covers/book-2.png'' \<and>
      getBook db' ''book-2'' = Some row \<and> cover_url row = Some ''/assets/covers/book-2.png''"
    by auto
  from f(1) up 1 on 2 show ?thesis by blast
qed

section \<open>Approval\<close>

lemma assign_get:
  assumes "\<And>f v row. f \<noteq> f0 \<Longrightarrow> g (setColumn f v row) = g row"
    and "\<And>v row. g (setColumn f0 v row) = h v (g row)"
  shows "g (assign xs row) = fold (\<lambda>(f, v) acc. if f = f0 then h v acc else acc) xs (g row)"
proof (induction xs arbitrary: row)
  case Nil
  then show ?case by simp
next
  case (Cons x xs)
  obtain f v where x: "x = (f, v)" by (cases x)
  show ?case
    using Cons.IH [of "setColumn f v row"] assms x by (cases "f = f0") simp_all
qed

lemma fold_collectFields:
  assumes "distinct fs"
  shows "fold (\<lambda>(f, v) acc. if f = f0 then h v acc else acc) (collectFields fs updates) a =
         (if f0 \<in> set fs then (case getField updates f0 of None \<Rightarrow> a | Some v \<Rightarrow> h v a) else a)"
  using assms by (induction fs arbitrary: a) (auto split: option.splits)

lemma distinct_allowedFields: "distinct allowedFields"
  by (simp add: allowedFields_def)

lemma status_allowed: "''status'' \<in> set allowedFields"
  by (simp add: allowedFields_def)

lemma sell_price_allowed: "''sell_price'' \<in> set allowedFields"
  by (simp add: allowedFields_def)

lemma assign_status:
  "status (assign (collectFields allowedFields updates @ [(''updated_at'', VString now)]) row) =
     (case p_status updates of Value st \<Rightarrow> st | _ \<Rightarrow> status row)"
proof -
  let ?h = "\<lambda>v old. case v of VStatus x \<Rightarrow> x | _ \<Rightarrow> old"
  have 1: "\<And>f v row. f \<noteq> ''status'' \<Longrightarrow> status (setColumn f v row) = status row"
    by (simp add: setColumn_def split: FieldValue.splits)
  have 2: "\<And>v row. status (setColumn ''status'' v row) = ?h v (status row)"
    by (simp add: setColumn_def split: FieldValue.splits)
  have "status (assign (collectFields allowedFields updates) row) =
        fold (\<lambda>(f, v) acc. if f = ''status'' then ?h v acc else acc)
          (collectFields allowedFields updates) (status row)"
    by (rule assign_get [where g = status and h = ?h, OF 1 2])
  also have "\<dots> = (case getField updates ''status'' of None \<Rightarrow> status row
                    | Some v \<Rightarrow> ?h v (status row))"
    by (simp only: fold_collectFields [OF distinct_allowedFields] status_allowed if_True)
  also have "\<dots> = (case p_status updates of Value st \<Rightarrow> st | _ \<Rightarrow> status row)"
    by (simp add: getField_def propValue_def split: Prop.splits)
  finally show ?thesis by (simp add: assign_append 1)
qed

lemma assign_sell_price:
  "sell_price (assign (collectFields allowedFields updates @ [(''updated_at'', VString now)]) row) =
     (case p_sell_price updates of Value x \<Rightarrow> x | _ \<Rightarrow> sell_price row)"
proof -
  let ?h = "\<lambda>v old. case v of VNumber x \<Rightarrow> x | _ \<Rightarrow> old"
  have 1: "\<And>f v row. f \<noteq> ''sell_price'' \<Longrightarrow> sell_price (setColumn f v row) = sell_price row"
    by (simp add: setColumn_def split: FieldValue.splits)
  have 2: "\<And>v row. sell_price (setColumn ''sell_price'' v row) = ?h v (sell_price row)"
    by (simp add: setColumn_def split: FieldValue.splits)
  have "sell_price (assign (collectFields allowedFields updates) row) =
        fold (\<lambda>(f, v) acc. if f = ''sell_price'' then ?h v acc else acc)
          (collectFields allowedFields updates) (sell_price row)"
    by (rule assign_get [where g = sell_price and h = ?h, OF 1 2])
  also have "\<dots> = (case getField updates ''sell_price'' of None \<Rightarrow> sell_price row
                    | Some v \<Rightarrow> ?h v (sell_price row))"
    by (simp only: fold_collectFields [OF distinct_allowedFields] sell_price_allowed if_True)
  also have "\<dots> = (case p_sell_price updates of Value x \<Rightarrow> x | _ \<Rightarrow> sell_price row)"
    by (simp add: getField_def propValue_def split: Prop.splits)
  finally show ?thesis by (simp add: assign_append 1)
qed

text \<open>Null reaches a NOT NULL column only from one of five properties of the payload.\<close>

lemma getField_required:
  "getField updates ''title'' = propValue VString (p_title updates)"
  "getField updates ''author'' = propValue VString (p_author updates)"
  "getField updates ''sell_price'' = propValue VNumber (p_sell_price updates)"
  "getField updates ''in_stock'' = propValue VBoolean (p_in_stock updates)"
  "getField updates ''status'' = propValue VStatus (p_status updates)"
  by (simp_all add: getField_def)

lemma propValue_null: "propValue wrap p = Some VNull \<Longrightarrow> (\<And>x. wrap x \<noteq> VNull) \<Longrightarrow> p = Null"
  by (cases p) (simp_all add: propValue_def)

lemma getField_null:
  assumes "f \<in> set allowedFields" "f \<in> set notNullColumns" "getField updates f = Some VNull"
  shows "p_title updates = Null \<or> p_author updates = Null \<or> p_sell_price updates = Null \<or>
         p_in_stock updates = Null \<or> p_status updates = Null"
proof -
  have "filter (\<lambda>f. f \<in> set notNullColumns) allowedFields =
          [''title'', ''author'', ''sell_price'', ''in_stock'', ''status'']"
    by code_simp
  moreover from assms(1,2)
  have "f \<in> set (filter (\<lambda>f. f \<in> set notNullColumns) allowedFields)"
    by simp
  ultimately have "f \<in> set [''title'', ''author'', ''sell_price'', ''in_stock'', ''status'']"
    by (simp only:)
  then have "f = ''title'' \<or> f = ''author'' \<or> f = ''sell_price'' \<or> f = ''in_stock'' \<or>
             f = ''status''"
    by (simp only: list.set insert_iff empty_iff simp_thms)
  with assms(3)
  have "propValue VString (p_title updates) = Some VNull \<or>
        propValue VString (p_author updates) = Some VNull \<or>
        propValue VNumber (p_sell_price updates) = Some VNull \<or>
        propValue VBoolean (p_in_stock updates) = Some VNull \<or>
        propValue VStatus (p_status updates) = Some VNull"
    using getField_required [of updates] by metis
  then show ?thesis
    by (elim disjE) (simp_all add: propValue_null)
qed

text \<open>The payload \<^verbatim>\<open>approveBook\<close> hands to \<^verbatim>\<open>updateBook\<close>.\<close>

lemma approve_payload:
  fixes updates :: "ApproveUpdates option"
  defines "updateData \<equiv>
    (case updates of
       None \<Rightarrow> emptyPartial\<lparr>p_status := Value live\<rparr>
     | Some u \<Rightarrow>
         emptyPartial
           \<lparr> p_status := Value live,
             p_sell_price :=
               (if truthy truthyNumber (final_price u)
                then ofOption (map_option poundsToPence (final_price u)) else Undefined),
             p_title := whenTruthy (edit_title u),
             p_author := whenTruthy (edit_author u),
             p_description := whenTruthy (edit_description u),
             p_vibe_tags := whenTruthy (edit_vibe_tags u) \<rparr>)"
  shows "p_status updateData = Value live"
    and "p_sell_price updateData =
           (case updates of
              None \<Rightarrow> Undefined
            | Some u \<Rightarrow>
                (case final_price u of
                   None \<Rightarrow> Undefined
                 | Some p \<Rightarrow> if p = 0 then Undefined else Value (poundsToPence p)))"
    and "collectFields allowedFields updateData \<noteq> []"
    and "\<not> nullsNotNull (collectFields allowedFields updateData
                           @ [(''updated_at'', VString now)])"
proof -
  show 1: "p_status updateData = Value live"
    by (simp add: updateData_def emptyPartial_def split: option.splits)
  show "p_sell_price updateData =
           (case updates of
              None \<Rightarrow> Undefined
            | Some u \<Rightarrow>
                (case final_price u of
                   None \<Rightarrow> Undefined
                 | Some p \<Rightarrow> if p = 0 then Undefined else Value (poundsToPence p)))"
    by (simp add: updateData_def emptyPartial_def truthy_def truthyNumber_def ofOption_def
        split: option.splits)
  have "getField updateData ''status'' \<noteq> None"
    using 1 by (simp add: getField_def propValue_def)
  with status_allowed show "collectFields allowedFields updateData \<noteq> []"
    by (auto simp: collectFields_empty)
  have nn: "p_title updateData \<noteq> Null" "p_author updateData \<noteq> Null"
    "p_sell_price updateData \<noteq> Null" "p_in_stock updateData \<noteq> Null"
    "p_status updateData \<noteq> Null"
    by (simp_all add: updateData_def emptyPartial_def whenTruthy_def ofOption_def truthy_def
        split: option.splits)
  show "\<not> nullsNotNull (collectFields allowedFields updateData
                         @ [(''updated_at'', VString now)])"
    unfolding nullsNotNull_iff using getField_null [of _ updateData] nn by blast
qed

text \<open>
  Claim C2, as the code has it. \<^verbatim>\<open>approveBook\<close> fails with the error 404 when there is
  no such book and with the error 400 when the status of the book is live. With any other
  status (draft, pending_review, and sold and removed as well) it succeeds: the book it
  returns is the stored one, its status is live, its update time is the current time, and its
  sell price is the override in pence when an override other than 0 is given, and the old
  price otherwise.
\<close>

theorem approveBook_refuses_only_live:
  "(getBook db bookId = None \<longrightarrow>
      approveBook db now bookId updates = (Inl (BookstoreError ''Book not found'' 404), db)) \<and>
   (\<forall>book. getBook db bookId = Some book \<and> status book = live \<longrightarrow>
      approveBook db now bookId updates = (Inl (BookstoreError ''Book is already live'' 400), db)) \<and>
   (\<forall>book. getBook db bookId = Some book \<and> status book \<noteq> live \<longrightarrow>
      (\<exists>b db'. approveBook db now bookId updates = (Inr b, db') \<and>
         getBook db' bookId = Some b \<and> status b = live \<and> updated_at b = now \<and>
         book_id b = book_id book \<and> isbn b = isbn book \<and> cost_price b = cost_price book \<and>
         sell_price b =
           (case updates of
              None \<Rightarrow> sell_price book
            | Some u \<Rightarrow>
                (case final_price u of
                   None \<Rightarrow> sell_price book
                 | Some p \<Rightarrow> if p = 0 then sell_price book else poundsToPence p))))"
proof (intro conjI allI impI)
  show "getBook db bookId = None \<Longrightarrow>
      approveBook db now bookId updates = (Inl (BookstoreError ''Book not found'' 404), db)"
    by (simp add: approveBook_def)
  show "getBook db bookId = Some book \<and> status book = live \<Longrightarrow>
      approveBook db now bookId updates = (Inl (BookstoreError ''Book is already live'' 400), db)"
    for book
    by (simp add: approveBook_def)
next
  fix book
  assume h: "getBook db bookId = Some book \<and> status book \<noteq> live"
  define updateData where "updateData =
    (case updates of
       None \<Rightarrow> emptyPartial\<lparr>p_status := Value live\<rparr>
     | Some u \<Rightarrow>
         emptyPartial
           \<lparr> p_status := Value live,
             p_sell_price :=
               (if truthy truthyNumber (final_price u)
                then ofOption (map_option poundsToPence (final_price u)) else Undefined),
             p_title := whenTruthy (edit_title u),
             p_author := whenTruthy (edit_author u),
             p_description := whenTruthy (edit_description u),
             p_vibe_tags := whenTruthy (edit_vibe_tags u) \<rparr>)"
  note p = approve_payload(1-3) [of updates, folded updateData_def]
  note p4 = approve_payload(4) [of updates now, folded updateData_def]
  let ?xs = "collectFields allowedFields updateData @ [(''updated_at'', VString now)]"
  let ?b = "assign ?xs book"
  let ?db' = "map (\<lambda>row. if book_id row = bookId then assign ?xs row else row) db"
  from h have g: "getBook db bookId = Some book" by simp
  have u: "updateBook db now bookId updateData = (Inr (Some ?b), ?db')"
    by (rule updateBook_some [OF g p(3) p4])
  have a: "approveBook db now bookId updates = (Inr ?b, ?db')"
    using h u by (simp add: approveBook_def Let_def updateData_def)
  have fr: "\<forall>(f, v) \<in> set ?xs. f \<in> set allowedFields \<or> f = ''updated_at''"
    by (auto dest: collectFields_names)
  have id: "\<And>row. book_id (assign ?xs row) = book_id row"
    using assign_frame [OF fr] by simp
  have f: "getBook ?db' bookId = Some ?b" "book_id ?b = book_id book" "isbn ?b = isbn book"
    "cost_price ?b = cost_price book"
    using getBook_map [OF g id] assign_frame [OF fr, of book] by simp_all
  have st: "status ?b = live"
    by (simp add: assign_status p(1))
  have sp: "sell_price ?b =
           (case updates of
              None \<Rightarrow> sell_price book
            | Some u \<Rightarrow>
                (case final_price u of
                   None \<Rightarrow> sell_price book
                 | Some p \<Rightarrow> if p = 0 then sell_price book else poundsToPence p))"
    by (simp add: assign_sell_price p(2) split: option.splits)
  from a f st sp updated_at_assign [of "collectFields allowedFields updateData" now book]
  show "\<exists>b db'. approveBook db now bookId updates = (Inr b, db') \<and>
         getBook db' bookId = Some b \<and> status b = live \<and> updated_at b = now \<and>
         book_id b = book_id book \<and> isbn b = isbn book \<and> cost_price b = cost_price book \<and>
         sell_price b =
           (case updates of
              None \<Rightarrow> sell_price book
            | Some u \<Rightarrow>
                (case final_price u of
                   None \<Rightarrow> sell_price book
                 | Some p \<Rightarrow> if p = 0 then sell_price book else poundsToPence p))"
    by blast
qed

theorem approveBook_refuses_only_live_witness:
  "getBook demoDb ''book-1'' = Some demoBook \<and> status demoBook = pending_review \<and>
   (\<exists>b db'. approveBook demoDb ''2025-10-23T12:00:00.000Z'' ''book-1''
               (Some \<lparr> final_price = Some (fl (1499 / 100)), edit_title = None,
                        edit_author = None, edit_description = None,
                        edit_vibe_tags = None \<rparr>) = (Inr b, db') \<and>
      getBook db' ''book-1'' = Some b \<and> status b = live \<and> sell_price b = 1499) \<and>
   getBook demoDb ''book-3'' = Some demoLive \<and> status demoLive = live \<and>
   approveBook demoDb ''2025-10-23T12:00:00.000Z'' ''book-3'' None
     = (Inl (BookstoreError ''Book is already live'' 400), demoDb)"
proof -
  let ?u = "Some \<lparr> final_price = Some (fl (1499 / 100)), edit_title = None,
                        edit_author = None, edit_description = None,
                        edit_vibe_tags = None \<rparr>"
  have g: "getBook demoDb ''book-1'' = Some demoBook" "status demoBook = pending_review"
    "getBook demoDb ''book-3'' = Some demoLive" "status demoLive = live"
    by code_simp+
  have pr: "fl (1499 / 100) \<noteq> 0" "poundsToPence (fl (1499 / 100)) = 1499"
    by code_simp+
  from approveBook_refuses_only_live [of demoDb "''book-1''" "''2025-10-23T12:00:00.000Z''" ?u] g pr
  have 1: "\<exists>b db'. approveBook demoDb ''2025-10-23T12:00:00.000Z'' ''book-1'' ?u = (Inr b, db') \<and>
      getBook db' ''book-1'' = Some b \<and> status b = live \<and> sell_price b = 1499"
    by auto
  from approveBook_refuses_only_live [of demoDb "''book-3''" "''2025-10-23T12:00:00.000Z''" None] g
  have 2: "approveBook demoDb ''2025-10-23T12:00:00.000Z'' ''book-3'' None
     = (Inl (BookstoreError ''Book is already live'' 400), demoDb)"
    by simp
  from g 1 2 show ?thesis by blast
qed

text \<open>
  The claim as it is written fails: it lets only a draft or a pending book be approved, and
  the approval of a removed book succeeds and puts it on sale.
\<close>

theorem approveBook_removed_counterexample:
  "getBook demoDb ''book-4'' = Some demoRemoved \<and> status demoRemoved = removed \<and>
   fst (approveBook demoDb ''2025-10-23T12:00:00.000Z'' ''book-4'' None)
     = Inr (demoRemoved\<lparr> status := live, updated_at := ''2025-10-23T12:00:00.000Z'' \<rparr>)"
  by code_simp

section \<open>Keyword search\<close>









end
